theory Spec2Isabelle
  imports Complex_Main
begin

section \<open>Values, documents and the store\<close>

text \<open>
  The backend is an Express application over a Mongoose collection of users, each
  user document owning an array of transaction subdocuments.  Two copies of the
  server are in the repository: \<^verbatim>\<open>src/backend/server.js\<close> (port 5000, the one the
  frontend talks to) and \<^verbatim>\<open>src/unnamed/part_000\<close> (port 3000).  Handlers of the
  first keep their route's name; handlers of the second carry the suffix \<open>_p0\<close>.

  A JSON value of a request body.  \<open>JUndefined\<close> is what destructuring yields for
  a key the body does not have.  Numbers are the finite values a JSON number
  parses to, which are rationals; no handler computes with them.
\<close>

datatype jsval = JUndefined | JNull | JBool bool | JNum rat | JStr string

text \<open>JavaScript truthiness, as used by \<^verbatim>\<open>!x\<close> and \<^verbatim>\<open>x || y\<close>.\<close>

fun truthy :: "jsval \<Rightarrow> bool" where
  "truthy JUndefined = False"
| "truthy JNull = False"
| "truthy (JBool b) = b"
| "truthy (JNum n) = (n \<noteq> 0)"
| "truthy (JStr s) = (s \<noteq> [])"

text \<open>\<^verbatim>\<open>x == null\<close> holds of \<^verbatim>\<open>null\<close> and \<^verbatim>\<open>undefined\<close> only.\<close>

fun eq_null :: "jsval \<Rightarrow> bool" where
  "eq_null JUndefined = True"
| "eq_null JNull = True"
| "eq_null _ = False"

text \<open>\<^verbatim>\<open>a || b\<close>\<close>

definition js_or :: "jsval \<Rightarrow> jsval \<Rightarrow> jsval" where
  "js_or a b = (if truthy a then a else b)"

text \<open>
  Truthiness of an optional string (\<^verbatim>\<open>req.body.user\<close>, \<^verbatim>\<open>req.cookies?.jwt\<close>):
  \<^verbatim>\<open>undefined\<close> and the empty string are falsy.
\<close>

fun truthy_str :: "string option \<Rightarrow> bool" where
  "truthy_str None = False"
| "truthy_str (Some s) = (s \<noteq> [])"

text \<open>
  An ObjectId.  The model identifies an ObjectId with its hexadecimal rendering,
  so \<^verbatim>\<open>_id.toString()\<close> is the identity and the \<^verbatim>\<open>id\<close> claim of a token is an
  \<open>oid\<close> too.
\<close>

type_synonym oid = nat

text \<open>The five fields of a transaction, as the handlers destructure them.\<close>

record fields =
  tx_type :: jsval
  category :: jsval
  amount :: jsval
  description :: jsval
  date :: jsval

record transaction =
  t_id :: oid
  t_fields :: fields

record user =
  u_id :: oid
  username :: string
  password :: string
  refreshToken :: "string option"
  transactions :: "transaction list"

text \<open>
  The users collection, in insertion order, and the supply of ObjectIds: every
  identifier handed out is \<open>next_oid\<close>, which then advances, so that identifiers
  are never reused.
\<close>

record db =
  users :: "user list"
  next_oid :: oid

text \<open>
  The store itself does not fail: a lost connection, which the handlers would
  answer with 500 where they catch it, is outside the model.  The one exception
  modelled is the error a document raises when the schema rejects it.
\<close>

definition empty_db :: db where
  "empty_db = \<lparr>users = [], next_oid = 0\<rparr>"

subsection \<open>The libraries and the environment\<close>

text \<open>
  \<^verbatim>\<open>jsonwebtoken\<close>, \<^verbatim>\<open>bcrypt\<close>, the two secrets of \<^verbatim>\<open>process.env\<close> and the
  Mongoose schema of \<^verbatim>\<open>./User\<close> are not part of the sources; the handlers take
  them as a parameter.
  \<^item> \<open>jwt_sign i secret expiresIn clock\<close> is
    \<^verbatim>\<open>jwt.sign({ id: i }, secret, { expiresIn })\<close> at time \<open>clock\<close>;
  \<^item> \<open>jwt_verify token secret clock\<close> is \<^verbatim>\<open>jwt.verify(token, secret, cb)\<close>:
    \<open>Inl\<close> is the \<^verbatim>\<open>err\<close> given to the callback, \<open>Inr\<close> is \<^verbatim>\<open>decoded.id\<close>;
  \<^item> \<open>tx_schema f\<close> is the casting and validation Mongoose applies to a
    transaction subdocument when it is saved: \<open>Inl\<close> is the message of the
    error \<^verbatim>\<open>save()\<close> throws, \<open>Inr\<close> the document as stored.
\<close>

datatype jwt_error = JsonWebTokenError | TokenExpiredError

record env =
  ACCESS_TOKEN_SECRET :: string
  REFRESH_TOKEN_SECRET :: string
  jwt_sign :: "oid \<Rightarrow> string \<Rightarrow> string \<Rightarrow> nat \<Rightarrow> string"
  jwt_verify :: "string \<Rightarrow> string \<Rightarrow> nat \<Rightarrow> jwt_error + oid"
  bcrypt_hash :: "string \<Rightarrow> string"
  bcrypt_compare :: "string \<Rightarrow> string \<Rightarrow> bool"
  tx_schema :: "fields \<Rightarrow> string + fields"

subsection \<open>Mongoose operations\<close>

text \<open>\<^verbatim>\<open>User.findOne({ username })\<close>: the first document with that username.\<close>

definition findOne_username :: "db \<Rightarrow> string \<Rightarrow> user option" where
  "findOne_username d name = find (\<lambda>u. username u = name) (users d)"

text \<open>
  \<^verbatim>\<open>User.findOne({ refreshToken })\<close> for a non-empty string: the first document
  whose stored refresh token is that string.
\<close>

definition findOne_refreshToken :: "db \<Rightarrow> string \<Rightarrow> user option" where
  "findOne_refreshToken d tok = find (\<lambda>u. refreshToken u = Some tok) (users d)"

text \<open>\<^verbatim>\<open>User.findById(id)\<close>\<close>

definition findById :: "db \<Rightarrow> oid \<Rightarrow> user option" where
  "findById d i = find (\<lambda>u. u_id u = i) (users d)"

text \<open>
  \<^verbatim>\<open>User.create({ username, password, transactions: [] })\<close>: a new document with
  a fresh \<^verbatim>\<open>_id\<close> and no refresh token, inserted into the collection.
\<close>

definition User_create :: "db \<Rightarrow> string \<Rightarrow> string \<Rightarrow> db \<times> user" where
  "User_create d name hashed =
     (let newUser = \<lparr>u_id = next_oid d, username = name, password = hashed,
                      refreshToken = None, transactions = []\<rparr>
      in (d\<lparr>users := users d @ [newUser], next_oid := Suc (next_oid d)\<rparr>, newUser))"

text \<open>\<^verbatim>\<open>doc.save()\<close>: the stored document with that \<^verbatim>\<open>_id\<close> takes the new contents.\<close>

definition save :: "db \<Rightarrow> user \<Rightarrow> db" where
  "save d doc = d\<lparr>users := map (\<lambda>u. if u_id u = u_id doc then doc else u) (users d)\<rparr>"

text \<open>\<^verbatim>\<open>user.transactions.id(tid)\<close>: the first subdocument with that \<^verbatim>\<open>_id\<close>, or null.\<close>

definition transactions_id :: "user \<Rightarrow> oid \<Rightarrow> transaction option" where
  "transactions_id doc tid = find (\<lambda>t. t_id t = tid) (transactions doc)"

text \<open>
  \<^verbatim>\<open>transaction.deleteOne()\<close>: the subdocument pulls itself out of its parent
  array by \<^verbatim>\<open>_id\<close>.
\<close>

definition deleteOne :: "user \<Rightarrow> transaction \<Rightarrow> user" where
  "deleteOne doc t =
     doc\<lparr>transactions := filter (\<lambda>x. t_id x \<noteq> t_id t) (transactions doc)\<rparr>"

text \<open>Assigning the fields of the subdocument \<open>t\<close> inside its parent.\<close>

definition assign_fields :: "user \<Rightarrow> transaction \<Rightarrow> fields \<Rightarrow> user" where
  "assign_fields doc t f =
     doc\<lparr>transactions :=
           map (\<lambda>x. if t_id x = t_id t then x\<lparr>t_fields := f\<rparr> else x) (transactions doc)\<rparr>"

subsection \<open>Requests and responses\<close>

record cookie_opts =
  httpOnly :: bool
  sameSite :: string
  secure :: bool
  maxAge :: "nat option"

datatype resp_body =
    StatusText
  | Message string
  | AccessToken string
  | Error string
  | Transactions "transaction list"

record response =
  status :: nat
  body :: resp_body
  set_cookie :: "(string \<times> string \<times> cookie_opts) option"
  clear_cookie :: "(string \<times> cookie_opts) option"

text \<open>\<^verbatim>\<open>res.sendStatus(n)\<close> and \<^verbatim>\<open>res.status(n).json(b)\<close>\<close>

definition sendStatus :: "nat \<Rightarrow> response" where
  "sendStatus n = \<lparr>status = n, body = StatusText, set_cookie = None, clear_cookie = None\<rparr>"

definition json :: "nat \<Rightarrow> resp_body \<Rightarrow> response" where
  "json n b = \<lparr>status = n, body = b, set_cookie = None, clear_cookie = None\<rparr>"

text \<open>
  Register and login read \<^verbatim>\<open>user\<close> and \<^verbatim>\<open>pwd\<close> from the body (strings, or
  absent); \<open>clock\<close> is the time at which the tokens are signed.
\<close>

record auth_req =
  body_user :: "string option"
  body_pwd :: "string option"
  auth_clock :: nat

text \<open>
  Refresh and logout read \<^verbatim>\<open>req.cookies?.jwt\<close>.  \<open>cookies_jwt\<close> is the \<^verbatim>\<open>jwt\<close> cookie
  the request carries.  In src/backend/server.js the cookie-parser middleware
  (\<^verbatim>\<open>app.use(cookieParser())\<close>, line 21) puts it into \<^verbatim>\<open>req.cookies\<close>, so it is what
  the handlers there read.
\<close>

record cookie_req =
  cookies_jwt :: "string option"
  cookie_clock :: nat

text \<open>
  The transaction routes run behind \<^verbatim>\<open>verifyJWT\<close>, which has put the identity of
  the access token into \<^verbatim>\<open>req.user.id\<close>; \<open>params_tid\<close> is \<^verbatim>\<open>req.params.tid\<close> and
  \<open>req_body\<close> the JSON object of the body, a key it lacks giving \<open>JUndefined\<close>.
\<close>

record tx_req =
  req_user_id :: oid
  params_tid :: oid
  req_body :: "string \<Rightarrow> jsval"

text \<open>\<^verbatim>\<open>const { type, category, amount, description, date } = req.body\<close>\<close>

definition destructure :: "(string \<Rightarrow> jsval) \<Rightarrow> fields" where
  "destructure b =
     \<lparr>tx_type = b ''type'', category = b ''category'', amount = b ''amount'',
      description = b ''description'', date = b ''date''\<rparr>"

section \<open>The handlers of src/backend/server.js\<close>

definition cookie_set_opts :: cookie_opts where
  "cookie_set_opts =
     \<lparr>httpOnly = True, sameSite = ''Lax'', secure = False, maxAge = Some (24 * 60 * 60 * 1000)\<rparr>"

definition cookie_clear_opts :: cookie_opts where
  "cookie_clear_opts = \<lparr>httpOnly = True, sameSite = ''Lax'', secure = False, maxAge = None\<rparr>"

text \<open>
  Register and login end alike: sign the access token and the refresh token for the
  document's \<^verbatim>\<open>_id\<close>, store the refresh token on the document, save it, set the
  cookie and answer with the access token.  \<open>ttl\<close> is the lifetime of the access
  token, \<open>opts\<close> the options of the cookie and \<open>code\<close> the status.
\<close>

definition issue ::
  "env \<Rightarrow> db \<Rightarrow> user \<Rightarrow> nat \<Rightarrow> string \<Rightarrow> cookie_opts \<Rightarrow> nat \<Rightarrow> db \<times> response" where
  "issue E d doc clock ttl opts code =
     (let accessToken = jwt_sign E (u_id doc) (ACCESS_TOKEN_SECRET E) ttl clock;
          refreshTok = jwt_sign E (u_id doc) (REFRESH_TOKEN_SECRET E) ''1d'' clock;
          d' = save d (doc\<lparr>refreshToken := Some refreshTok\<rparr>)
      in (d', \<lparr>status = code, body = AccessToken accessToken,
               set_cookie = Some (''jwt'', refreshTok, opts),
               clear_cookie = None\<rparr>))"

text \<open>POST /register\<close>

definition register :: "env \<Rightarrow> db \<Rightarrow> auth_req \<Rightarrow> db \<times> response" where
  "register E d req =
     (if \<not> truthy_str (body_user req) \<or> \<not> truthy_str (body_pwd req)
      then (d, json 400 (Message ''Username and password required''))
      else
        (case findOne_username d (the (body_user req)) of
           Some duplicate \<Rightarrow> (d, sendStatus 409)
         | None \<Rightarrow>
             (let hashedPwd = bcrypt_hash E (the (body_pwd req));
                  (d1, newUser) = User_create d (the (body_user req)) hashedPwd
              in issue E d1 newUser (auth_clock req) ''15m'' cookie_set_opts 201)))"

text \<open>POST /login\<close>

definition login :: "env \<Rightarrow> db \<Rightarrow> auth_req \<Rightarrow> db \<times> response" where
  "login E d req =
     (if \<not> truthy_str (body_user req) \<or> \<not> truthy_str (body_pwd req)
      then (d, json 400 (Message ''Username and password required''))
      else
        (case findOne_username d (the (body_user req)) of
           None \<Rightarrow> (d, sendStatus 401)
         | Some foundUser \<Rightarrow>
             if \<not> bcrypt_compare E (the (body_pwd req)) (password foundUser)
             then (d, sendStatus 401)
             else issue E d foundUser (auth_clock req) ''15m'' cookie_set_opts 200))"

text \<open>POST /refresh\<close>

definition refresh :: "env \<Rightarrow> db \<Rightarrow> cookie_req \<Rightarrow> db \<times> response" where
  "refresh E d req =
     (case cookies_jwt req of
        None \<Rightarrow> (d, sendStatus 401)
      | Some refreshTok \<Rightarrow>
          if refreshTok = [] then (d, sendStatus 401)
          else
            (case findOne_refreshToken d refreshTok of
               None \<Rightarrow> (d, sendStatus 403)
             | Some foundUser \<Rightarrow>
                 (case jwt_verify E refreshTok (REFRESH_TOKEN_SECRET E) (cookie_clock req) of
                    Inl err \<Rightarrow> (d, sendStatus 403)
                  | Inr decoded_id \<Rightarrow>
                      if u_id foundUser \<noteq> decoded_id then (d, sendStatus 403)
                      else (d, json 200 (AccessToken
                             (jwt_sign E (u_id foundUser) (ACCESS_TOKEN_SECRET E) ''15m''
                                (cookie_clock req)))))))"

text \<open>POST /logout\<close>

definition logout :: "env \<Rightarrow> db \<Rightarrow> cookie_req \<Rightarrow> db \<times> response" where
  "logout E d req =
     (case cookies_jwt req of
        None \<Rightarrow> (d, sendStatus 204)
      | Some refreshTok \<Rightarrow>
          if refreshTok = [] then (d, sendStatus 204)
          else
            (let d' = (case findOne_refreshToken d refreshTok of
                         Some foundUser \<Rightarrow> save d (foundUser\<lparr>refreshToken := None\<rparr>)
                       | None \<Rightarrow> d)
             in (d', (sendStatus 204)\<lparr>clear_cookie := Some (''jwt'', cookie_clear_opts)\<rparr>)))"

text \<open>
  POST /auth/create.  The pushed subdocument gets a fresh \<^verbatim>\<open>_id\<close>; an error of the
  schema is thrown inside the \<^verbatim>\<open>try\<close> and answered with 500, nothing being saved.
\<close>

definition auth_create :: "env \<Rightarrow> db \<Rightarrow> tx_req \<Rightarrow> db \<times> response" where
  "auth_create E d req =
     (let f = destructure (req_body req) in
      case findById d (req_user_id req) of
        None \<Rightarrow> (d, sendStatus 404)
      | Some doc \<Rightarrow>
          (case tx_schema E f of
             Inl msg \<Rightarrow> (d, json 500 (Error msg))
           | Inr f' \<Rightarrow>
               (let doc' = doc\<lparr>transactions :=
                                 transactions doc @ [\<lparr>t_id = next_oid d, t_fields = f'\<rparr>]\<rparr>
                in ((save d doc')\<lparr>next_oid := Suc (next_oid d)\<rparr>,
                    json 201 (Message ''Transaction added'')))))"

text \<open>GET /auth/transactions\<close>

definition auth_transactions :: "env \<Rightarrow> db \<Rightarrow> tx_req \<Rightarrow> db \<times> response" where
  "auth_transactions E d req =
     (case findById d (req_user_id req) of
        None \<Rightarrow> (d, sendStatus 404)
      | Some doc \<Rightarrow> (d, json 200 (Transactions (transactions doc))))"

text \<open>PUT /auth/update/:tid\<close>

definition auth_update :: "env \<Rightarrow> db \<Rightarrow> tx_req \<Rightarrow> db \<times> response" where
  "auth_update E d req =
     (let f = destructure (req_body req) in
      case findById d (req_user_id req) of
        None \<Rightarrow> (d, sendStatus 404)
      | Some doc \<Rightarrow>
          (case transactions_id doc (params_tid req) of
             None \<Rightarrow> (d, sendStatus 404)
           | Some t \<Rightarrow>
               (case tx_schema E (f\<lparr>date := js_or (date f) (date (t_fields t))\<rparr>) of
                  Inl msg \<Rightarrow> (d, json 500 (Error msg))
                | Inr f' \<Rightarrow>
                    (save d (assign_fields doc t f'),
                     json 200 (Message ''Transaction updated'')))))"

text \<open>DELETE /auth/delete/:tid\<close>

definition auth_delete :: "env \<Rightarrow> db \<Rightarrow> tx_req \<Rightarrow> db \<times> response" where
  "auth_delete E d req =
     (case findById d (req_user_id req) of
        None \<Rightarrow> (d, sendStatus 404)
      | Some doc \<Rightarrow>
          (case transactions_id doc (params_tid req) of
             None \<Rightarrow> (d, sendStatus 404)
           | Some t \<Rightarrow>
               (save d (deleteOne doc t), json 200 (Message ''Transaction deleted''))))"

section \<open>The handlers of src/unnamed/part_000\<close>

text \<open>
  The second copy differs in the lifetime of the access token (30 seconds), in
  the options of the cookie, in the messages, in the update handler, which
  checks the required fields first, and in its middleware.  Its handlers for
  creating, listing and deleting transactions are those of the first copy,
  statement for statement, and are not repeated.

  The middleware of this copy is \<^verbatim>\<open>app.use("/auth", verifyJWT)\<close> and
  \<^verbatim>\<open>app.use(express.json())\<close> (lines 10 and 11) and nothing else: no cookie-parser
  is installed.  So \<^verbatim>\<open>req.cookies\<close> is undefined for every request, whatever cookie
  the request carries.  \<open>None\<close> stands for undefined, \<open>Some jar\<close> for a parsed
  cookie object whose \<^verbatim>\<open>jwt\<close> entry is \<open>jar\<close>.
\<close>

definition req_cookies_p0 :: "cookie_req \<Rightarrow> string option option" where
  "req_cookies_p0 req = None"

text \<open>\<^verbatim>\<open>cookies?.jwt\<close>\<close>

definition optional_jwt :: "string option option \<Rightarrow> string option" where
  "optional_jwt cookies = (case cookies of None \<Rightarrow> None | Some jar \<Rightarrow> jar)"

definition cookie_set_opts_p0 :: cookie_opts where
  "cookie_set_opts_p0 =
     \<lparr>httpOnly = True, sameSite = ''None'', secure = True, maxAge = Some (24 * 60 * 60 * 1000)\<rparr>"

definition cookie_clear_opts_p0 :: cookie_opts where
  "cookie_clear_opts_p0 = \<lparr>httpOnly = True, sameSite = ''None'', secure = True, maxAge = None\<rparr>"

definition register_p0 :: "env \<Rightarrow> db \<Rightarrow> auth_req \<Rightarrow> db \<times> response" where
  "register_p0 E d req =
     (if \<not> truthy_str (body_user req) \<or> \<not> truthy_str (body_pwd req)
      then (d, json 400 (Message ''Username and password are required.''))
      else
        (case findOne_username d (the (body_user req)) of
           Some duplicate \<Rightarrow> (d, sendStatus 409)
         | None \<Rightarrow>
             (let hashedPwd = bcrypt_hash E (the (body_pwd req));
                  (d1, newUser) = User_create d (the (body_user req)) hashedPwd
              in issue E d1 newUser (auth_clock req) ''30s'' cookie_set_opts_p0 201)))"

definition login_p0 :: "env \<Rightarrow> db \<Rightarrow> auth_req \<Rightarrow> db \<times> response" where
  "login_p0 E d req =
     (if \<not> truthy_str (body_user req) \<or> \<not> truthy_str (body_pwd req)
      then (d, json 400 (Message ''Username and password are required.''))
      else
        (case findOne_username d (the (body_user req)) of
           None \<Rightarrow> (d, sendStatus 401)
         | Some foundUser \<Rightarrow>
             if \<not> bcrypt_compare E (the (body_pwd req)) (password foundUser)
             then (d, sendStatus 401)
             else issue E d foundUser (auth_clock req) ''30s'' cookie_set_opts_p0 200))"

definition refresh_p0 :: "env \<Rightarrow> db \<Rightarrow> cookie_req \<Rightarrow> db \<times> response" where
  "refresh_p0 E d req =
     (let cookies = req_cookies_p0 req in
      if \<not> truthy_str (optional_jwt cookies) then (d, sendStatus 401)
      else
        (let refreshTok = the (optional_jwt cookies) in
         case findOne_refreshToken d refreshTok of
           None \<Rightarrow> (d, sendStatus 403)
         | Some foundUser \<Rightarrow>
             (case jwt_verify E refreshTok (REFRESH_TOKEN_SECRET E) (cookie_clock req) of
                Inl err \<Rightarrow> (d, sendStatus 403)
              | Inr decoded_id \<Rightarrow>
                  if u_id foundUser \<noteq> decoded_id then (d, sendStatus 403)
                  else (d, json 200 (AccessToken
                         (jwt_sign E (u_id foundUser) (ACCESS_TOKEN_SECRET E) ''30s''
                            (cookie_clock req)))))))"

definition logout_p0 :: "env \<Rightarrow> db \<Rightarrow> cookie_req \<Rightarrow> db \<times> response" where
  "logout_p0 E d req =
     (let cookies = req_cookies_p0 req in
      if \<not> truthy_str (optional_jwt cookies) then (d, sendStatus 204)
      else
        (let refreshTok = the (optional_jwt cookies) in
         case findOne_refreshToken d refreshTok of
           None \<Rightarrow>
             (d, (sendStatus 204)\<lparr>clear_cookie := Some (''jwt'', cookie_clear_opts_p0)\<rparr>)
         | Some foundUser \<Rightarrow>
             (save d (foundUser\<lparr>refreshToken := None\<rparr>),
              (sendStatus 204)\<lparr>clear_cookie := Some (''jwt'', cookie_clear_opts_p0)\<rparr>)))"

definition auth_update_p0 :: "env \<Rightarrow> db \<Rightarrow> tx_req \<Rightarrow> db \<times> response" where
  "auth_update_p0 E d req =
     (let f = destructure (req_body req) in
      if \<not> truthy (tx_type f) \<or> \<not> truthy (category f) \<or> eq_null (amount f)
      then (d, json 400 (Message ''Missing required fields''))
      else
        (case findById d (req_user_id req) of
           None \<Rightarrow> (d, sendStatus 404)
         | Some doc \<Rightarrow>
             (case transactions_id doc (params_tid req) of
                None \<Rightarrow> (d, sendStatus 404)
              | Some t \<Rightarrow>
                  (case tx_schema E (f\<lparr>date := js_or (date f) (date (t_fields t))\<rparr>) of
                     Inl msg \<Rightarrow> (d, json 500 (Error msg))
                   | Inr f' \<Rightarrow>
                       (save d (assign_fields doc t f'),
                        json 200 (Message ''Transaction updated''))))))"

section \<open>The invariant of the store\<close>

text \<open>
  ObjectIds are unique: no two users share an \<^verbatim>\<open>_id\<close>, no two transactions of the
  whole collection share one, and every identifier in use is older than the next
  one to be handed out.
\<close>

definition all_tids :: "db \<Rightarrow> oid list" where
  "all_tids d = concat (map (\<lambda>u. map t_id (transactions u)) (users d))"

definition wf :: "db \<Rightarrow> bool" where
  "wf d \<longleftrightarrow>
     distinct (map u_id (users d)) \<and> distinct (all_tids d) \<and>
     (\<forall>u \<in> set (users d). u_id u < next_oid d) \<and>
     (\<forall>i \<in> set (all_tids d). i < next_oid d)"

text \<open>
  The states of the store the server can be in: the empty collection, and what any
  handler of either copy leaves behind, for any request.
\<close>

inductive reachable :: "env \<Rightarrow> db \<Rightarrow> bool" for E :: env where
  start: "reachable E empty_db"
| by_register: "reachable E d \<Longrightarrow> reachable E (fst (register E d a))"
| by_login: "reachable E d \<Longrightarrow> reachable E (fst (login E d a))"
| by_refresh: "reachable E d \<Longrightarrow> reachable E (fst (refresh E d c))"
| by_logout: "reachable E d \<Longrightarrow> reachable E (fst (logout E d c))"
| by_create: "reachable E d \<Longrightarrow> reachable E (fst (auth_create E d r))"
| by_transactions: "reachable E d \<Longrightarrow> reachable E (fst (auth_transactions E d r))"
| by_update: "reachable E d \<Longrightarrow> reachable E (fst (auth_update E d r))"
| by_delete: "reachable E d \<Longrightarrow> reachable E (fst (auth_delete E d r))"
| by_register_p0: "reachable E d \<Longrightarrow> reachable E (fst (register_p0 E d a))"
| by_login_p0: "reachable E d \<Longrightarrow> reachable E (fst (login_p0 E d a))"
| by_refresh_p0: "reachable E d \<Longrightarrow> reachable E (fst (refresh_p0 E d c))"
| by_logout_p0: "reachable E d \<Longrightarrow> reachable E (fst (logout_p0 E d c))"
| by_update_p0: "reachable E d \<Longrightarrow> reachable E (fst (auth_update_p0 E d r))"

section \<open>An environment to run the handlers in\<close>

text \<open>
  A small stand-in for the libraries, for evaluating the handlers on examples.  A
  token is the secret, the identity and the expiry time, the numbers in binary,
  separated by dots; verification checks the secret and the expiry.  The hash
  of a password is the password behind a fixed prefix.  The schema stores every
  document as it is given.
\<close>

fun bin :: "nat \<Rightarrow> string" where
  "bin n = (if n < 2 then [if n = 0 then CHR ''0'' else CHR ''1'']
            else bin (n div 2) @ [if even n then CHR ''0'' else CHR ''1''])"

declare bin.simps [simp del]

definition unbin :: "string \<Rightarrow> nat" where
  "unbin cs = foldl (\<lambda>a c. 2 * a + (if c = CHR ''1'' then 1 else 0)) 0 cs"

definition seconds :: "string \<Rightarrow> nat" where
  "seconds ttl =
     (if ttl = ''30s'' then 30 else if ttl = ''15m'' then 15 * 60
      else if ttl = ''1d'' then 24 * 60 * 60 else 0)"

definition sign0 :: "oid \<Rightarrow> string \<Rightarrow> string \<Rightarrow> nat \<Rightarrow> string" where
  "sign0 i secret ttl clock = secret @ ''.'' @ bin i @ ''.'' @ bin (clock + seconds ttl)"

definition verify0 :: "string \<Rightarrow> string \<Rightarrow> nat \<Rightarrow> jwt_error + oid" where
  "verify0 tok secret clock =
     (let n = length secret in
      if take n tok = secret \<and> take 1 (drop n tok) = ''.''
      then
        (let rest = drop (Suc n) tok;
             a = takeWhile (\<lambda>c. c \<noteq> CHR ''.'') rest;
             b = drop (Suc (length a)) rest
         in if unbin b \<le> clock then Inl TokenExpiredError else Inr (unbin a))
      else Inl JsonWebTokenError)"

definition env0 :: env where
  "env0 =
     \<lparr>ACCESS_TOKEN_SECRET = ''A'', REFRESH_TOKEN_SECRET = ''R'',
      jwt_sign = sign0, jwt_verify = verify0,
      bcrypt_hash = (\<lambda>pwd. ''$'' @ pwd),
      bcrypt_compare = (\<lambda>pwd hashed. hashed = ''$'' @ pwd),
      tx_schema = Inr\<rparr>"

text \<open>
  Two users with one transaction each, as the store stands after alice registered
  at time 10, bob at time 20, and each created one transaction.
\<close>

definition lunch :: fields where
  "lunch = \<lparr>tx_type = JStr ''expense'', category = JStr ''Food'', amount = JNum (25 / 2),
            description = JStr ''lunch'', date = JStr ''2024-03-01''\<rparr>"

definition salary :: fields where
  "salary = \<lparr>tx_type = JStr ''income'', category = JStr ''Salary'', amount = JNum 3000,
             description = JUndefined, date = JStr ''2024-03-02''\<rparr>"

definition alice_token :: string where
  "alice_token = sign0 0 ''R'' ''1d'' 10"

definition bob_token :: string where
  "bob_token = sign0 1 ''R'' ''1d'' 20"

definition alice :: user where
  "alice = \<lparr>u_id = 0, username = ''alice'', password = ''$pw'',
            refreshToken = Some alice_token,
            transactions = [\<lparr>t_id = 2, t_fields = lunch\<rparr>]\<rparr>"

definition bob :: user where
  "bob = \<lparr>u_id = 1, username = ''bob'', password = ''$hunter2'',
          refreshToken = Some bob_token,
          transactions = [\<lparr>t_id = 3, t_fields = salary\<rparr>]\<rparr>"

definition db2 :: db where
  "db2 = \<lparr>users = [alice, bob], next_oid = 4\<rparr>"

text \<open>The JSON object with the five fields of \<open>f\<close>, a field that is undefined being left out.\<close>

definition body_of :: "fields \<Rightarrow> string \<Rightarrow> jsval" where
  "body_of f =
     (\<lambda>k. JUndefined)(''type'' := tx_type f, ''category'' := category f,
        ''amount'' := amount f, ''description'' := description f, ''date'' := date f)"

text \<open>
  Two bodies of update requests: one that overwrites every field but the date
  (with amount 0 and an empty description), and one that lacks the type.
\<close>

definition gift_body :: "string \<Rightarrow> jsval" where
  "gift_body =
     (\<lambda>k. JUndefined)(''type'' := JStr ''income'', ''category'' := JStr ''Gift'',
        ''amount'' := JNum 0, ''description'' := JStr [])"

definition no_type_body :: "string \<Rightarrow> jsval" where
  "no_type_body = (\<lambda>k. JUndefined)(''category'' := JStr ''Food'', ''amount'' := JNum 5)"

text \<open>
  What the proofs about tokens need of the library: a signed token is not the
  empty string, and if it verifies under the secret it was signed with, the
  identity decoded is the one it was signed for.
\<close>

definition jwt_faithful :: "env \<Rightarrow> bool" where
  "jwt_faithful E \<longleftrightarrow>
     (\<forall>i secret ttl t. jwt_sign E i secret ttl t \<noteq> [] \<and>
        (\<forall>clock j. jwt_verify E (jwt_sign E i secret ttl t) secret clock = Inr j \<longrightarrow> j = i))"

section \<open>Lookups and the invariant\<close>

lemma find_mem: "find P xs = Some x \<Longrightarrow> x \<in> set xs \<and> P x"
  by (induction xs) (auto split: if_splits)

lemma find_None: "find P xs = None \<longleftrightarrow> (\<forall>x \<in> set xs. \<not> P x)"
  by (induction xs) auto

lemma findById_mem: "findById d i = Some u \<Longrightarrow> u \<in> set (users d) \<and> u_id u = i"
  unfolding findById_def by (rule find_mem)

lemma find_distinct_key:
  "distinct (map k xs) \<Longrightarrow> x \<in> set xs \<Longrightarrow> find (\<lambda>y. k y = k x) xs = Some x"
  by (induction xs) (auto simp: rev_image_eqI)

lemma findById_wf: "wf d \<Longrightarrow> u \<in> set (users d) \<Longrightarrow> findById d (u_id u) = Some u"
  unfolding findById_def wf_def by (simp add: find_distinct_key)

lemma disjoint_tids:
  "distinct (concat (map g us)) \<Longrightarrow> a \<in> set us \<Longrightarrow> b \<in> set us \<Longrightarrow> a \<noteq> b \<Longrightarrow>
     set (g a) \<inter> set (g b) = {}"
  by (induction us) auto

lemma map_replace:
  "distinct (map k xs) \<Longrightarrow> xs = ys @ u # zs \<Longrightarrow> k doc = k u \<Longrightarrow>
     map (\<lambda>x. if k x = k doc then doc else x) xs = ys @ doc # zs"
  by (auto simp: image_iff intro!: map_idI)

lemma users_save:
  "distinct (map u_id (users d)) \<Longrightarrow> users d = ys @ u # zs \<Longrightarrow> u_id doc = u_id u \<Longrightarrow>
     users (save d doc) = ys @ doc # zs"
  using map_replace [of u_id "users d" ys u zs doc] by (simp add: save_def)

lemma next_oid_save [simp]: "next_oid (save d doc) = next_oid d"
  by (simp add: save_def)


lemma distinct_middle:
  "distinct (A @ B @ C) \<Longrightarrow> set B' \<subseteq> set B \<Longrightarrow> distinct B' \<Longrightarrow> distinct (A @ B' @ C)"
  by auto

lemma all_tids_split:
  "users d = ys @ u # zs \<Longrightarrow>
     all_tids d = all_tids (d\<lparr>users := ys\<rparr>) @ map t_id (transactions u) @ all_tids (d\<lparr>users := zs\<rparr>)"
  by (simp add: all_tids_def)

lemma wf_save:
  assumes "wf d" "u \<in> set (users d)" "u_id doc = u_id u"
    and sub: "set (map t_id (transactions doc)) \<subseteq> set (map t_id (transactions u))"
    and dis: "distinct (map t_id (transactions doc))"
  shows "wf (save d doc)"
proof -
  from assms(2) obtain ys zs where split: "users d = ys @ u # zs"
    by (auto dest: split_list)
  from assms(1) have dist: "distinct (map u_id (users d))" by (simp add: wf_def)
  have us: "users (save d doc) = ys @ doc # zs"
    by (rule users_save [OF dist split assms(3)])
  have 1: "distinct (map u_id (users (save d doc)))"
    using dist assms(3) by (simp add: us split)
  let ?A = "all_tids (d\<lparr>users := ys\<rparr>)" and ?C = "all_tids (d\<lparr>users := zs\<rparr>)"
  have old: "all_tids d = ?A @ map t_id (transactions u) @ ?C"
    using split by (rule all_tids_split)
  have new: "all_tids (save d doc) = ?A @ map t_id (transactions doc) @ ?C"
    using us by (simp add: all_tids_def)
  have t: "distinct (all_tids d)" using assms(1) by (simp add: wf_def)
  have 2: "distinct (all_tids (save d doc))"
    unfolding new by (rule distinct_middle [OF t [unfolded old] sub dis])
  have 3: "\<forall>x \<in> set (users (save d doc)). u_id x < next_oid (save d doc)"
    using assms(1,3) unfolding wf_def us split by auto
  have "\<forall>i \<in> set (all_tids d). i < next_oid d" using assms(1) by (simp add: wf_def)
  then have 4: "\<forall>i \<in> set (all_tids (save d doc)). i < next_oid (save d doc)"
    using sub unfolding new old by auto
  show ?thesis unfolding wf_def using 1 2 3 4 by blast
qed


lemma distinct_middle_fresh:
  "distinct (A @ B @ C) \<Longrightarrow> distinct B' \<Longrightarrow>
   \<forall>x \<in> set B'. x \<in> set B \<or> x \<notin> set A \<union> set C \<Longrightarrow> distinct (A @ B' @ C)"
  by auto

lemma wf_save_push:
  assumes "wf d" "u \<in> set (users d)" "u_id doc = u_id u"
    and new: "transactions doc = transactions u @ [\<lparr>t_id = next_oid d, t_fields = f\<rparr>]"
  shows "wf ((save d doc)\<lparr>next_oid := Suc (next_oid d)\<rparr>)"
proof -
  from assms(2) obtain ys zs where split: "users d = ys @ u # zs"
    by (auto dest: split_list)
  from assms(1) have dist: "distinct (map u_id (users d))" by (simp add: wf_def)
  have us: "users (save d doc) = ys @ doc # zs"
    by (rule users_save [OF dist split assms(3)])
  have 1: "distinct (map u_id (users (save d doc)))"
    using dist assms(3) by (simp add: us split)
  let ?A = "all_tids (d\<lparr>users := ys\<rparr>)" and ?C = "all_tids (d\<lparr>users := zs\<rparr>)"
  let ?B = "map t_id (transactions u)"
  have old: "all_tids d = ?A @ ?B @ ?C"
    using split by (rule all_tids_split)
  have new': "all_tids (save d doc) = ?A @ (?B @ [next_oid d]) @ ?C"
    using us by (simp add: all_tids_def new)
  have t: "distinct (?A @ ?B @ ?C)" using assms(1) by (simp add: wf_def old)
  have bound: "\<forall>i \<in> set (?A @ ?B @ ?C). i < next_oid d"
    using assms(1) by (simp add: wf_def old)
  have fresh: "next_oid d \<notin> set (?A @ ?B @ ?C)" using bound by blast
  have dB: "distinct (?B @ [next_oid d])" using t fresh by simp
  have 2: "distinct (all_tids (save d doc))"
    unfolding new' by (rule distinct_middle_fresh [OF t dB]) (use fresh in auto)
  have 3: "\<forall>x \<in> set (users (save d doc)). u_id x < Suc (next_oid d)"
    using assms(1,3) unfolding wf_def us split by (auto simp: less_Suc_eq)
  have 4: "\<forall>i \<in> set (all_tids (save d doc)). i < Suc (next_oid d)"
    using bound unfolding new' by (auto simp: less_Suc_eq)
  show ?thesis unfolding wf_def using 1 2 3 4 by (simp add: all_tids_def)
qed

lemma wf_empty_db: "wf empty_db"
  by (simp add: wf_def empty_db_def all_tids_def)

lemma wf_User_create:
  "wf d \<Longrightarrow> wf (fst (User_create d name hashed))"
  by (auto simp: wf_def User_create_def all_tids_def Let_def less_Suc_eq)

lemma User_create_mem:
  "snd (User_create d name hashed) \<in> set (users (fst (User_create d name hashed)))"
  by (simp add: User_create_def Let_def)

lemma wf_tids_distinct:
  "wf d \<Longrightarrow> u \<in> set (users d) \<Longrightarrow> distinct (map t_id (transactions u))"
  by (auto simp: wf_def dest!: split_list dest: all_tids_split)

lemma wf_save_same_tids:
  "wf d \<Longrightarrow> u \<in> set (users d) \<Longrightarrow> u_id doc = u_id u \<Longrightarrow>
     map t_id (transactions doc) = map t_id (transactions u) \<Longrightarrow> wf (save d doc)"
  using wf_tids_distinct [of d u] by (intro wf_save [where u = u]) simp_all

lemma wf_issue:
  "wf d \<Longrightarrow> doc \<in> set (users d) \<Longrightarrow> wf (fst (issue E d doc clock ttl opts code))"
  by (simp add: issue_def Let_def wf_save_same_tids [where u = doc])

lemma findOne_username_mem:
  "findOne_username d name = Some u \<Longrightarrow> u \<in> set (users d) \<and> username u = name"
  unfolding findOne_username_def by (rule find_mem)

lemma findOne_refreshToken_mem:
  "findOne_refreshToken d tok = Some u \<Longrightarrow> u \<in> set (users d) \<and> refreshToken u = Some tok"
  unfolding findOne_refreshToken_def by (rule find_mem)

lemma transactions_id_mem:
  "transactions_id doc tid = Some t \<Longrightarrow> t \<in> set (transactions doc) \<and> t_id t = tid"
  unfolding transactions_id_def by (rule find_mem)

lemma wf_register: "wf d \<Longrightarrow> wf (fst (register E d req))"
  using wf_issue [OF wf_User_create User_create_mem]
  by (simp add: register_def case_prod_beta Let_def split: option.splits)

lemma wf_register_p0: "wf d \<Longrightarrow> wf (fst (register_p0 E d req))"
  using wf_issue [OF wf_User_create User_create_mem]
  by (simp add: register_p0_def case_prod_beta Let_def split: option.splits)

lemma wf_login: "wf d \<Longrightarrow> wf (fst (login E d req))"
  by (auto simp: login_def wf_issue dest: findOne_username_mem split: option.splits)

lemma wf_login_p0: "wf d \<Longrightarrow> wf (fst (login_p0 E d req))"
  by (auto simp: login_p0_def wf_issue dest: findOne_username_mem split: option.splits)

lemma wf_refresh: "wf d \<Longrightarrow> wf (fst (refresh E d req))"
  by (auto simp: refresh_def split: option.splits sum.splits)

lemma wf_refresh_p0: "wf d \<Longrightarrow> wf (fst (refresh_p0 E d req))"
  by (simp add: refresh_p0_def req_cookies_p0_def optional_jwt_def)

lemma wf_logout: "wf d \<Longrightarrow> wf (fst (logout E d req))"
  by (auto simp: logout_def Let_def wf_save_same_tids dest: findOne_refreshToken_mem
      split: option.splits)

lemma wf_logout_p0: "wf d \<Longrightarrow> wf (fst (logout_p0 E d req))"
  by (simp add: logout_p0_def req_cookies_p0_def optional_jwt_def)

lemma wf_auth_create: "wf d \<Longrightarrow> wf (fst (auth_create E d req))"
  by (auto simp: auth_create_def Let_def dest!: findById_mem
      intro!: wf_save_push split: option.splits sum.splits)

lemma wf_auth_transactions: "wf d \<Longrightarrow> wf (fst (auth_transactions E d req))"
  by (auto simp: auth_transactions_def split: option.splits)

lemma tids_assign_fields [simp]:
  "map t_id (transactions (assign_fields doc t f)) = map t_id (transactions doc)"
  by (simp add: assign_fields_def comp_def if_distrib [of t_id] cong: if_cong)

lemma u_id_assign_fields [simp]: "u_id (assign_fields doc t f) = u_id doc"
  by (simp add: assign_fields_def)

lemma u_id_deleteOne [simp]: "u_id (deleteOne doc t) = u_id doc"
  by (simp add: deleteOne_def)

lemma wf_auth_update: "wf d \<Longrightarrow> wf (fst (auth_update E d req))"
  by (auto simp: auth_update_def Let_def dest!: findById_mem
      intro!: wf_save_same_tids split: option.splits sum.splits)

lemma wf_auth_update_p0: "wf d \<Longrightarrow> wf (fst (auth_update_p0 E d req))"
  by (auto simp: auth_update_p0_def Let_def dest!: findById_mem
      intro!: wf_save_same_tids split: option.splits sum.splits)

lemma wf_auth_delete:
  assumes w: "wf d"
  shows "wf (fst (auth_delete E d req))"
proof (cases "findById d (req_user_id req)")
  case None
  with w show ?thesis by (simp add: auth_delete_def)
next
  case (Some doc)
  from Some have m: "doc \<in> set (users d)" by (simp add: findById_mem)
  have "wf (save d (deleteOne doc t))" for t
    using w m
  proof (rule wf_save)
    show "u_id (deleteOne doc t) = u_id doc" by simp
    show "set (map t_id (transactions (deleteOne doc t))) \<subseteq> set (map t_id (transactions doc))"
      by (auto simp: deleteOne_def)
    show "distinct (map t_id (transactions (deleteOne doc t)))"
      using wf_tids_distinct [OF w m] by (simp add: deleteOne_def distinct_map_filter)
  qed
  with Some w show ?thesis by (simp add: auth_delete_def split: option.splits)
qed

text \<open>
  The empty store satisfies the invariant and every handler of either copy
  preserves it, so it holds in every state the server reaches.
\<close>

lemma reachable_wf: "reachable E d \<Longrightarrow> wf d"
proof (induction rule: reachable.induct)
  case start
  show ?case by (rule wf_empty_db)
qed (simp_all add: wf_register wf_login wf_refresh wf_logout wf_auth_create wf_auth_transactions
    wf_auth_update wf_auth_delete wf_register_p0 wf_login_p0 wf_refresh_p0 wf_logout_p0
    wf_auth_update_p0)

lemma alice_token_eq: "alice_token = ''R.0.10101000110001010''"
  by (simp add: alice_token_def sign0_def seconds_def bin.simps)

lemma bob_token_eq: "bob_token = ''R.1.10101000110010100''"
  by (simp add: bob_token_def sign0_def seconds_def bin.simps)

lemma wf_db2: "wf db2"
  by (simp add: wf_def db2_def alice_def bob_def all_tids_def)

text \<open>The example store is the one the handlers build from the empty store.\<close>

lemma db2_reached:
  "db2 =
     (let a = \<lparr>body_user = Some ''alice'', body_pwd = Some ''pw'', auth_clock = 10\<rparr>;
          b = \<lparr>body_user = Some ''bob'', body_pwd = Some ''hunter2'', auth_clock = 20\<rparr>;
          d1 = fst (register env0 empty_db a);
          d2 = fst (register env0 d1 b);
          d3 = fst (auth_create env0 d2
                 \<lparr>req_user_id = 0, params_tid = 0, req_body = body_of lunch\<rparr>)
      in fst (auth_create env0 d3
                 \<lparr>req_user_id = 1, params_tid = 0, req_body = body_of salary\<rparr>))"
  by (simp add: db2_def alice_def bob_def register_def auth_create_def env0_def empty_db_def
      findOne_username_def findById_def User_create_def issue_def save_def destructure_def
      body_of_def lunch_def salary_def alice_token_def bob_token_def Let_def)

lemma reachable_db2: "reachable env0 db2"
  unfolding db2_reached Let_def by (intro reachable.intros)

section \<open>Refresh\<close>

text \<open>
  C3.  Refresh is read-only on the store.  For every environment, every store and
  every request, in both copies of the server, the store after the call is the
  store before it, whatever the outcome; the response sets no cookie, so no new
  refresh token reaches the client either; and the only token a response carries
  is an access token, signed with the access-token secret.  (In
  src/unnamed/part_000 the one outcome is 401, as no cookie is ever parsed.)
\<close>

theorem refresh_read_only:
  "fst (refresh E d req) = d \<and> set_cookie (snd (refresh E d req)) = None \<and>
   (body (snd (refresh E d req)) = StatusText \<or>
    (\<exists>i. body (snd (refresh E d req)) =
       AccessToken (jwt_sign E i (ACCESS_TOKEN_SECRET E) ''15m'' (cookie_clock req)))) \<and>
   fst (refresh_p0 E d req) = d \<and> set_cookie (snd (refresh_p0 E d req)) = None \<and>
   (body (snd (refresh_p0 E d req)) = StatusText \<or>
    (\<exists>i. body (snd (refresh_p0 E d req)) =
       AccessToken (jwt_sign E i (ACCESS_TOKEN_SECRET E) ''30s'' (cookie_clock req))))"
  by (auto simp: refresh_def refresh_p0_def req_cookies_p0_def optional_jwt_def
      sendStatus_def json_def Let_def split: option.splits sum.splits)

theorem refresh_read_only_witness:
  "fst (refresh env0 db2 \<lparr>cookies_jwt = Some alice_token, cookie_clock = 50\<rparr>) = db2 \<and>
   fst (refresh_p0 env0 db2 \<lparr>cookies_jwt = Some ''forged'', cookie_clock = 50\<rparr>) = db2"
  using refresh_read_only [of env0 db2 "\<lparr>cookies_jwt = Some alice_token, cookie_clock = 50\<rparr>"]
    refresh_read_only [of env0 db2 "\<lparr>cookies_jwt = Some ''forged'', cookie_clock = 50\<rparr>"]
  by blast

lemma find_map_replace:
  "find (\<lambda>x. k x = i) xs = Some u \<Longrightarrow> k doc = i \<Longrightarrow>
     find (\<lambda>x. k x = i) (map (\<lambda>x. if k x = k doc then doc else x) xs) = Some doc"
  by (induction xs) (auto split: if_splits)

lemma find_map_other:
  "j \<noteq> k doc \<Longrightarrow>
     find (\<lambda>x. k x = j) (map (\<lambda>x. if k x = k doc then doc else x) xs) = find (\<lambda>x. k x = j) xs"
  by (induction xs) auto

lemma findById_save_same:
  "findById d i = Some u \<Longrightarrow> u_id doc = i \<Longrightarrow> findById (save d doc) i = Some doc"
  unfolding findById_def save_def using find_map_replace [of u_id i "users d" u doc] by simp

lemma findById_save_other:
  "j \<noteq> u_id doc \<Longrightarrow> findById (save d doc) j = findById d j"
  unfolding findById_def save_def using find_map_other [of j u_id doc "users d"] by simp

lemma findOne_refreshToken_None:
  "findOne_refreshToken d c = None \<longleftrightarrow> (\<forall>u \<in> set (users d). refreshToken u \<noteq> Some c)"
  unfolding findOne_refreshToken_def by (rule find_None)

text \<open>
  The error taxonomy of refresh in src/backend/server.js.  A cookie that is absent
  or empty (the handler tests \<^verbatim>\<open>!refreshToken\<close>) gives 401.  Otherwise, if no user's
  stored refresh token equals the cookie, the answer is 403.  Otherwise, with \<open>u\<close>
  the user found by the cookie's value, if verification does not yield \<open>u\<close>'s id
  (it fails, or it decodes to another id), the answer is 403; and if it yields
  \<open>u\<close>'s id, the answer is 200 with a newly signed access token for that id.  The
  store is returned unchanged in every case.
\<close>

lemma refresh_taxonomy_backend:
  "(\<not> truthy_str (cookies_jwt req) \<longrightarrow> refresh E d req = (d, sendStatus 401)) \<and>
   (cookies_jwt req = Some c \<and> c \<noteq> [] \<and> (\<forall>u \<in> set (users d). refreshToken u \<noteq> Some c) \<longrightarrow>
      refresh E d req = (d, sendStatus 403)) \<and>
   (cookies_jwt req = Some c \<and> c \<noteq> [] \<and> findOne_refreshToken d c = Some u \<and>
    jwt_verify E c (REFRESH_TOKEN_SECRET E) (cookie_clock req) \<noteq> Inr (u_id u) \<longrightarrow>
      refresh E d req = (d, sendStatus 403)) \<and>
   (cookies_jwt req = Some c \<and> c \<noteq> [] \<and> findOne_refreshToken d c = Some u \<and>
    jwt_verify E c (REFRESH_TOKEN_SECRET E) (cookie_clock req) = Inr (u_id u) \<longrightarrow>
      refresh E d req =
        (d, json 200 (AccessToken
              (jwt_sign E (u_id u) (ACCESS_TOKEN_SECRET E) ''15m'' (cookie_clock req)))))"
proof (intro conjI impI)
  assume "\<not> truthy_str (cookies_jwt req)"
  then show "refresh E d req = (d, sendStatus 401)"
    by (cases "cookies_jwt req") (simp_all add: refresh_def)
next
  assume a: "cookies_jwt req = Some c \<and> c \<noteq> [] \<and> (\<forall>u \<in> set (users d). refreshToken u \<noteq> Some c)"
  then have "findOne_refreshToken d c = None" by (simp add: findOne_refreshToken_None)
  with a show "refresh E d req = (d, sendStatus 403)"
    by (simp add: refresh_def)
next
  assume a: "cookies_jwt req = Some c \<and> c \<noteq> [] \<and> findOne_refreshToken d c = Some u \<and>
    jwt_verify E c (REFRESH_TOKEN_SECRET E) (cookie_clock req) \<noteq> Inr (u_id u)"
  then show "refresh E d req = (d, sendStatus 403)"
    by (auto simp: refresh_def split: sum.splits)
next
  assume a: "cookies_jwt req = Some c \<and> c \<noteq> [] \<and> findOne_refreshToken d c = Some u \<and>
    jwt_verify E c (REFRESH_TOKEN_SECRET E) (cookie_clock req) = Inr (u_id u)"
  then show "refresh E d req =
        (d, json 200 (AccessToken
              (jwt_sign E (u_id u) (ACCESS_TOKEN_SECRET E) ''15m'' (cookie_clock req))))"
    by (simp add: refresh_def)
qed

lemma findOne_alice: "findOne_refreshToken db2 alice_token = Some alice"
  by (simp add: findOne_refreshToken_def db2_def alice_def)

lemma verify_alice_50: "verify0 alice_token ''R'' 50 = Inr 0"
  by (simp add: alice_token_eq verify0_def unbin_def)

lemma verify_alice_late: "verify0 alice_token ''R'' 86410 = Inl TokenExpiredError"
  by (simp add: alice_token_eq verify0_def unbin_def)

lemma no_forged: "\<forall>u \<in> set (users db2). refreshToken u \<noteq> Some ''forged''"
  by (simp add: db2_def alice_def bob_def alice_token_eq bob_token_eq)

text \<open>The four outcomes of refresh in src/backend/server.js, on the example store.\<close>

lemma refresh_backend_examples:
  "refresh env0 db2 \<lparr>cookies_jwt = None, cookie_clock = 50\<rparr> = (db2, sendStatus 401) \<and>
   refresh env0 db2 \<lparr>cookies_jwt = Some ''forged'', cookie_clock = 50\<rparr> = (db2, sendStatus 403) \<and>
   refresh env0 db2 \<lparr>cookies_jwt = Some alice_token, cookie_clock = 86410\<rparr> = (db2, sendStatus 403) \<and>
   refresh env0 db2 \<lparr>cookies_jwt = Some alice_token, cookie_clock = 50\<rparr> =
     (db2, json 200 (AccessToken (sign0 0 ''A'' ''15m'' 50)))"
proof -
  have ne: "alice_token \<noteq> []" by (simp add: alice_token_eq)
  have 1: "refresh env0 db2 \<lparr>cookies_jwt = None, cookie_clock = 50\<rparr> = (db2, sendStatus 401)"
    using refresh_taxonomy_backend [of "\<lparr>cookies_jwt = None, cookie_clock = 50\<rparr>" env0 db2] by simp
  have 3: "refresh env0 db2 \<lparr>cookies_jwt = Some ''forged'', cookie_clock = 50\<rparr> = (db2, sendStatus 403)"
    using refresh_taxonomy_backend [of "\<lparr>cookies_jwt = Some ''forged'', cookie_clock = 50\<rparr>" env0 db2 "''forged''"]
      no_forged by simp
  have 4: "refresh env0 db2 \<lparr>cookies_jwt = Some alice_token, cookie_clock = 86410\<rparr> = (db2, sendStatus 403)"
    using refresh_taxonomy_backend [of "\<lparr>cookies_jwt = Some alice_token, cookie_clock = 86410\<rparr>" env0 db2
        alice_token alice] ne findOne_alice verify_alice_late
    by (simp add: env0_def)
  have 5: "refresh env0 db2 \<lparr>cookies_jwt = Some alice_token, cookie_clock = 50\<rparr> =
     (db2, json 200 (AccessToken (sign0 0 ''A'' ''15m'' 50)))"
    using refresh_taxonomy_backend [of "\<lparr>cookies_jwt = Some alice_token, cookie_clock = 50\<rparr>" env0 db2
        alice_token alice] ne findOne_alice verify_alice_50
    by (simp add: env0_def alice_def)
  from 1 3 4 5 show ?thesis by blast
qed

text \<open>
  C2.  The error taxonomy of refresh: 401 without a cookie, 403 for a cookie that no
  user's stored refresh token equals, 403 when verification fails or decodes to
  another id than the found user's, 200 with a new access token otherwise.
  src/backend/server.js follows it (\<open>refresh_taxonomy_backend\<close>).
  src/unnamed/part_000 does not: with no cookie-parser installed its handler never
  sees the cookie and answers 401 to every request, whatever the environment, the
  store and the cookie.  On the example store a cookie nobody holds is answered
  401 where the taxonomy says 403 and server.js answers 403; and alice's stored
  token, which verifies to alice's id, is answered 401 where the taxonomy says
  200 and server.js answers 200.
\<close>

theorem refresh_p0_ignores_cookie:
  "refresh_p0 E d req = (d, sendStatus 401) \<and>
   refresh_p0 env0 db2 \<lparr>cookies_jwt = Some ''forged'', cookie_clock = 50\<rparr> = (db2, sendStatus 401) \<and>
   refresh env0 db2 \<lparr>cookies_jwt = Some ''forged'', cookie_clock = 50\<rparr> = (db2, sendStatus 403) \<and>
   findOne_refreshToken db2 alice_token = Some alice \<and>
   jwt_verify env0 alice_token (REFRESH_TOKEN_SECRET env0) 50 = Inr (u_id alice) \<and>
   refresh_p0 env0 db2 \<lparr>cookies_jwt = Some alice_token, cookie_clock = 50\<rparr> = (db2, sendStatus 401) \<and>
   refresh env0 db2 \<lparr>cookies_jwt = Some alice_token, cookie_clock = 50\<rparr> =
     (db2, json 200 (AccessToken (sign0 0 ''A'' ''15m'' 50)))"
proof -
  have a: "refresh_p0 E' d' req' = (d', sendStatus 401)" for E' d' req'
    by (simp add: refresh_p0_def req_cookies_p0_def optional_jwt_def)
  have v: "jwt_verify env0 alice_token (REFRESH_TOKEN_SECRET env0) 50 = Inr (u_id alice)"
    using verify_alice_50 by (simp add: env0_def alice_def)
  from a findOne_alice v refresh_backend_examples show ?thesis by simp
qed

section \<open>Logout\<close>

text \<open>
  C10.  A logout request without a \<^verbatim>\<open>jwt\<close> cookie (absent, or empty) is answered
  with 204 at once, in both copies of the server: the response is the bare status,
  which clears no cookie, and the store is the one given, no user record having been
  looked up.  In src/backend/server.js the response clears the cookie exactly when
  the request carried one; in src/unnamed/part_000, where no cookie is ever
  parsed, the response never clears it.
\<close>

theorem logout_without_cookie:
  "(\<not> truthy_str (cookies_jwt req) \<longrightarrow>
      logout E d req = (d, sendStatus 204) \<and> logout_p0 E d req = (d, sendStatus 204)) \<and>
   clear_cookie (sendStatus 204) = None \<and>
   ((clear_cookie (snd (logout E d req)) \<noteq> None) = truthy_str (cookies_jwt req)) \<and>
   clear_cookie (snd (logout_p0 E d req)) = None"
  by (cases "cookies_jwt req")
    (auto simp: logout_def logout_p0_def req_cookies_p0_def optional_jwt_def sendStatus_def
      Let_def split: option.splits)

theorem logout_without_cookie_witness:
  "logout env0 db2 \<lparr>cookies_jwt = None, cookie_clock = 50\<rparr> = (db2, sendStatus 204) \<and>
   logout_p0 env0 db2 \<lparr>cookies_jwt = None, cookie_clock = 50\<rparr> = (db2, sendStatus 204) \<and>
   clear_cookie (snd (logout env0 db2 \<lparr>cookies_jwt = None, cookie_clock = 50\<rparr>)) = None"
  using logout_without_cookie [of "\<lparr>cookies_jwt = None, cookie_clock = 50\<rparr>" env0 db2]
  by simp

lemma findOne_refreshToken_save_cleared:
  assumes "\<forall>v \<in> set (users d). refreshToken v = Some c \<longrightarrow> u_id v = u_id u"
  shows "findOne_refreshToken (save d (u\<lparr>refreshToken := None\<rparr>)) c = None"
proof -
  have "\<forall>v \<in> set (users (save d (u\<lparr>refreshToken := None\<rparr>))). refreshToken v \<noteq> Some c"
    using assms by (auto simp: save_def)
  then show ?thesis by (simp add: findOne_refreshToken_None)
qed

text \<open>
  Logout in src/backend/server.js is fail-soft.  Every logout request is answered
  with 204, and so is a second one after it.  Without a cookie, or with a cookie
  that no user's stored refresh token equals, the store is unchanged.  When a user
  \<open>u\<close> is found by the cookie's value, the store after the call is the one in which
  \<open>u\<close>'s document is saved with its refresh token set to null: looking \<open>u\<close> up
  gives that document, and every other id is looked up as before.  If \<open>u\<close> was the
  only holder of that token, repeating the request changes nothing more.
\<close>

lemma logout_fail_soft_backend:
  "status (snd (logout E d req)) = 204 \<and>
   status (snd (logout E (fst (logout E d req)) req)) = 204 \<and>
   (\<not> truthy_str (cookies_jwt req) \<longrightarrow> fst (logout E d req) = d) \<and>
   (cookies_jwt req = Some c \<and> c \<noteq> [] \<and> (\<forall>u \<in> set (users d). refreshToken u \<noteq> Some c) \<longrightarrow>
      fst (logout E d req) = d) \<and>
   (cookies_jwt req = Some c \<and> c \<noteq> [] \<and> findOne_refreshToken d c = Some u \<longrightarrow>
      fst (logout E d req) = save d (u\<lparr>refreshToken := None\<rparr>) \<and>
      findById (save d (u\<lparr>refreshToken := None\<rparr>)) (u_id u) = Some (u\<lparr>refreshToken := None\<rparr>) \<and>
      (\<forall>j. j \<noteq> u_id u \<longrightarrow>
         findById (save d (u\<lparr>refreshToken := None\<rparr>)) j = findById d j)) \<and>
   (cookies_jwt req = Some c \<and> c \<noteq> [] \<and> findOne_refreshToken d c = Some u \<and>
    (\<forall>v \<in> set (users d). refreshToken v = Some c \<longrightarrow> u_id v = u_id u) \<longrightarrow>
      fst (logout E (fst (logout E d req)) req) = fst (logout E d req))"
proof -
  have st: "status (snd (logout E d' req)) = 204" for d'
    by (cases "cookies_jwt req")
      (simp_all add: logout_def sendStatus_def Let_def split: option.splits)
  have a: "\<not> truthy_str (cookies_jwt req) \<longrightarrow> fst (logout E d req) = d"
    by (cases "cookies_jwt req") (simp_all add: logout_def)
  have b: "cookies_jwt req = Some c \<and> c \<noteq> [] \<and> (\<forall>u \<in> set (users d). refreshToken u \<noteq> Some c) \<longrightarrow>
      fst (logout E d req) = d"
  proof
    assume h: "cookies_jwt req = Some c \<and> c \<noteq> [] \<and> (\<forall>u \<in> set (users d). refreshToken u \<noteq> Some c)"
    then have "findOne_refreshToken d c = None" by (simp add: findOne_refreshToken_None)
    with h show "fst (logout E d req) = d"
      by (simp add: logout_def)
  qed
  have c: "cookies_jwt req = Some c \<and> c \<noteq> [] \<and> findOne_refreshToken d c = Some u \<longrightarrow>
      fst (logout E d req) = save d (u\<lparr>refreshToken := None\<rparr>)"
    by (simp add: logout_def)
  have e: "findOne_refreshToken d c = Some u \<longrightarrow>
      findById (save d (u\<lparr>refreshToken := None\<rparr>)) (u_id u) = Some (u\<lparr>refreshToken := None\<rparr>)"
  proof
    assume f: "findOne_refreshToken d c = Some u"
    then have "u \<in> set (users d)" by (simp add: findOne_refreshToken_mem)
    then obtain v where "findById d (u_id u) = Some v"
      unfolding findById_def by (cases "find (\<lambda>x. u_id x = u_id u) (users d)") (auto simp: find_None)
    then show "findById (save d (u\<lparr>refreshToken := None\<rparr>)) (u_id u) = Some (u\<lparr>refreshToken := None\<rparr>)"
      by (rule findById_save_same) simp
  qed
  have g: "\<forall>j. j \<noteq> u_id u \<longrightarrow>
         findById (save d (u\<lparr>refreshToken := None\<rparr>)) j = findById d j"
    by (simp add: findById_save_other)
  have i: "cookies_jwt req = Some c \<and> c \<noteq> [] \<and> findOne_refreshToken d c = Some u \<and>
    (\<forall>v \<in> set (users d). refreshToken v = Some c \<longrightarrow> u_id v = u_id u) \<longrightarrow>
      fst (logout E (fst (logout E d req)) req) = fst (logout E d req)"
  proof
    assume h: "cookies_jwt req = Some c \<and> c \<noteq> [] \<and> findOne_refreshToken d c = Some u \<and>
      (\<forall>v \<in> set (users d). refreshToken v = Some c \<longrightarrow> u_id v = u_id u)"
    then have "findOne_refreshToken (save d (u\<lparr>refreshToken := None\<rparr>)) c = None"
      by (simp add: findOne_refreshToken_save_cleared)
    with h show "fst (logout E (fst (logout E d req)) req) = fst (logout E d req)"
      by (simp add: logout_def)
  qed
  from st a b c e g i show ?thesis by blast
qed

text \<open>Logout in src/backend/server.js on the example store.\<close>

lemma logout_backend_examples:
  "status (snd (logout env0 db2 \<lparr>cookies_jwt = Some alice_token, cookie_clock = 50\<rparr>)) = 204 \<and>
   fst (logout env0 db2 \<lparr>cookies_jwt = None, cookie_clock = 50\<rparr>) = db2 \<and>
   fst (logout env0 db2 \<lparr>cookies_jwt = Some ''forged'', cookie_clock = 50\<rparr>) = db2 \<and>
   fst (logout env0 db2 \<lparr>cookies_jwt = Some alice_token, cookie_clock = 50\<rparr>) =
     \<lparr>users = [alice\<lparr>refreshToken := None\<rparr>, bob], next_oid = 4\<rparr> \<and>
   findById (fst (logout env0 db2 \<lparr>cookies_jwt = Some alice_token, cookie_clock = 50\<rparr>)) 0 =
     Some (alice\<lparr>refreshToken := None\<rparr>) \<and>
   findById (fst (logout env0 db2 \<lparr>cookies_jwt = Some alice_token, cookie_clock = 50\<rparr>)) 1 =
     Some bob \<and>
   fst (logout env0 (fst (logout env0 db2 \<lparr>cookies_jwt = Some alice_token, cookie_clock = 50\<rparr>))
      \<lparr>cookies_jwt = Some alice_token, cookie_clock = 50\<rparr>) =
     fst (logout env0 db2 \<lparr>cookies_jwt = Some alice_token, cookie_clock = 50\<rparr>)"
proof -
  have ne: "alice_token \<noteq> []" by (simp add: alice_token_eq)
  have only: "\<forall>v \<in> set (users db2). refreshToken v = Some alice_token \<longrightarrow> u_id v = u_id alice"
    by (simp add: db2_def alice_def bob_def alice_token_eq bob_token_eq)
  have sv: "save db2 (alice\<lparr>refreshToken := None\<rparr>) =
      \<lparr>users = [alice\<lparr>refreshToken := None\<rparr>, bob], next_oid = 4\<rparr>"
    by (simp add: save_def db2_def alice_def bob_def)
  have fb: "findById db2 1 = Some bob" by (simp add: findById_def db2_def alice_def bob_def)
  have ua: "u_id alice = 0" by (simp add: alice_def)
  have 1: "fst (logout env0 db2 \<lparr>cookies_jwt = None, cookie_clock = 50\<rparr>) = db2"
    using logout_fail_soft_backend [of env0 db2 "\<lparr>cookies_jwt = None, cookie_clock = 50\<rparr>"] by simp
  have 2: "fst (logout env0 db2 \<lparr>cookies_jwt = Some ''forged'', cookie_clock = 50\<rparr>) = db2"
    using logout_fail_soft_backend [of env0 db2 "\<lparr>cookies_jwt = Some ''forged'', cookie_clock = 50\<rparr>"
        "''forged''"] no_forged by simp
  have 3: "status (snd (logout env0 db2 \<lparr>cookies_jwt = Some alice_token, cookie_clock = 50\<rparr>)) = 204 \<and>
    fst (logout env0 db2 \<lparr>cookies_jwt = Some alice_token, cookie_clock = 50\<rparr>) =
      \<lparr>users = [alice\<lparr>refreshToken := None\<rparr>, bob], next_oid = 4\<rparr> \<and>
    findById (fst (logout env0 db2 \<lparr>cookies_jwt = Some alice_token, cookie_clock = 50\<rparr>)) 0 =
      Some (alice\<lparr>refreshToken := None\<rparr>) \<and>
    findById (fst (logout env0 db2 \<lparr>cookies_jwt = Some alice_token, cookie_clock = 50\<rparr>)) 1 =
      Some bob"
    using logout_fail_soft_backend [of env0 db2 "\<lparr>cookies_jwt = Some alice_token, cookie_clock = 50\<rparr>"
        alice_token alice] ne findOne_alice fb
    by (simp add: sv ua)
  have 4: "fst (logout env0 (fst (logout env0 db2 \<lparr>cookies_jwt = Some alice_token, cookie_clock = 50\<rparr>))
      \<lparr>cookies_jwt = Some alice_token, cookie_clock = 50\<rparr>) =
     fst (logout env0 db2 \<lparr>cookies_jwt = Some alice_token, cookie_clock = 50\<rparr>)"
    using logout_fail_soft_backend [of env0 db2 "\<lparr>cookies_jwt = Some alice_token, cookie_clock = 50\<rparr>"
        alice_token alice] ne findOne_alice only
      cookie_req.select_convs(1) [of "Some alice_token" 50 "()"]
    by blast
  from 1 2 3 4 show ?thesis by blast
qed

text \<open>
  C5.  Logout is idempotent and fail-soft: 204 without a cookie or without a
  matching user, and a matching user's stored refresh token set to null.
  src/backend/server.js does so (\<open>logout_fail_soft_backend\<close>).  src/unnamed/part_000
  answers 204 to every request, but with no cookie-parser installed its handler
  never sees the cookie: it returns the bare 204 and the store as it was, whatever
  the environment, the store and the cookie.  On the example store, a logout
  carrying alice's stored refresh token leaves that token stored, where server.js
  sets it to null.
\<close>

theorem logout_p0_ignores_cookie:
  "logout_p0 E d req = (d, sendStatus 204) \<and>
   findOne_refreshToken db2 alice_token = Some alice \<and>
   logout_p0 env0 db2 \<lparr>cookies_jwt = Some alice_token, cookie_clock = 50\<rparr> =
     (db2, sendStatus 204) \<and>
   findById db2 0 = Some alice \<and> refreshToken alice = Some alice_token \<and>
   findById (fst (logout env0 db2 \<lparr>cookies_jwt = Some alice_token, cookie_clock = 50\<rparr>)) 0 =
     Some (alice\<lparr>refreshToken := None\<rparr>)"
proof -
  have a: "logout_p0 E' d' req' = (d', sendStatus 204)" for E' d' req'
    by (simp add: logout_p0_def req_cookies_p0_def optional_jwt_def)
  have f: "findById db2 0 = Some alice" by (simp add: findById_def db2_def alice_def)
  have r: "refreshToken alice = Some alice_token" by (simp add: alice_def)
  from a findOne_alice f r logout_backend_examples show ?thesis by blast
qed

section \<open>Transactions\<close>

lemma transactions_id_None:
  "transactions_id doc tid = None \<longleftrightarrow> tid \<notin> t_id ` set (transactions doc)"
  unfolding transactions_id_def by (auto simp: find_None)

lemma foreign_tid:
  assumes "wf d" "a \<in> set (users d)" "b \<in> set (users d)" "u_id a \<noteq> u_id b"
    and "t \<in> set (transactions a)"
  shows "t_id t \<notin> t_id ` set (transactions b)"
proof -
  have "distinct (concat (map (\<lambda>u. map t_id (transactions u)) (users d)))"
    using assms(1) by (simp add: wf_def all_tids_def)
  moreover have "a \<noteq> b" using assms(4) by auto
  ultimately have "set (map t_id (transactions a)) \<inter> set (map t_id (transactions b)) = {}"
    using assms(2,3) disjoint_tids [of "\<lambda>u. map t_id (transactions u)" "users d" a b] by blast
  with assms(5) show ?thesis by auto
qed

text \<open>
  C1.  Owner scoping, in src/backend/server.js.  Let the store satisfy the
  invariant, let \<open>a\<close> and \<open>b\<close> be users with different ids and \<open>t\<close> a transaction of
  \<open>a\<close>'s collection.  For every request authenticated as \<open>b\<close> whose path names \<open>t\<close>'s
  id, whatever its body holds: listing answers with \<open>b\<close>'s own collection, in which
  no transaction has \<open>t\<close>'s id; update and delete answer 404 and leave the store
  as it was.  The handlers take the identity from \<^verbatim>\<open>req.user.id\<close> only: two requests
  with the same \<^verbatim>\<open>req.user.id\<close>, the same \<^verbatim>\<open>tid\<close> and the same five destructured
  fields are answered alike.
\<close>

theorem owner_scoping:
  assumes "wf d" "a \<in> set (users d)" "b \<in> set (users d)" "u_id a \<noteq> u_id b"
    and "t \<in> set (transactions a)"
    and "req_user_id req = u_id b" "params_tid req = t_id t"
  shows "auth_transactions E d req = (d, json 200 (Transactions (transactions b))) \<and>
         t_id t \<notin> t_id ` set (transactions b) \<and>
         auth_update E d req = (d, sendStatus 404) \<and>
         auth_delete E d req = (d, sendStatus 404) \<and>
         (\<forall>req'. req_user_id req' = req_user_id req \<and> params_tid req' = params_tid req \<and>
             destructure (req_body req') = destructure (req_body req) \<longrightarrow>
             auth_transactions E d req' = auth_transactions E d req \<and>
             auth_create E d req' = auth_create E d req \<and>
             auth_update E d req' = auth_update E d req \<and>
             auth_delete E d req' = auth_delete E d req)"
proof -
  have fb: "findById d (req_user_id req) = Some b"
    using assms(1,3,6) by (simp add: findById_wf)
  have nt: "t_id t \<notin> t_id ` set (transactions b)"
    using assms(1-5) by (rule foreign_tid)
  then have tn: "transactions_id b (params_tid req) = None"
    using assms(7) by (simp add: transactions_id_None)
  have 1: "auth_transactions E d req = (d, json 200 (Transactions (transactions b)))"
    by (simp add: auth_transactions_def fb)
  have 2: "auth_update E d req = (d, sendStatus 404)"
    by (simp add: auth_update_def fb tn)
  have 3: "auth_delete E d req = (d, sendStatus 404)"
    by (simp add: auth_delete_def fb tn)
  have 4: "\<forall>req'. req_user_id req' = req_user_id req \<and> params_tid req' = params_tid req \<and>
             destructure (req_body req') = destructure (req_body req) \<longrightarrow>
             auth_transactions E d req' = auth_transactions E d req \<and>
             auth_create E d req' = auth_create E d req \<and>
             auth_update E d req' = auth_update E d req \<and>
             auth_delete E d req' = auth_delete E d req"
    by (clarsimp simp: auth_transactions_def auth_create_def auth_update_def auth_delete_def
        cong: option.case_cong)
  from 1 nt 2 3 4 show ?thesis by blast
qed

lemma db2_facts:
  "alice \<in> set (users db2)" "bob \<in> set (users db2)" "u_id alice \<noteq> u_id bob"
  "\<lparr>t_id = 2, t_fields = lunch\<rparr> \<in> set (transactions alice)"
  by (simp_all add: db2_def alice_def bob_def)

theorem owner_scoping_witness:
  "auth_transactions env0 db2
     \<lparr>req_user_id = 1, params_tid = 2, req_body = (body_of salary)(''userId'' := JNum 0)\<rparr> =
     (db2, json 200 (Transactions [\<lparr>t_id = 3, t_fields = salary\<rparr>])) \<and>
   auth_update env0 db2
     \<lparr>req_user_id = 1, params_tid = 2, req_body = (body_of salary)(''userId'' := JNum 0)\<rparr> =
     (db2, sendStatus 404) \<and>
   auth_delete env0 db2
     \<lparr>req_user_id = 1, params_tid = 2, req_body = (body_of salary)(''userId'' := JNum 0)\<rparr> =
     (db2, sendStatus 404)"
  using owner_scoping [OF wf_db2 db2_facts, of
      "\<lparr>req_user_id = 1, params_tid = 2, req_body = (body_of salary)(''userId'' := JNum 0)\<rparr>" env0]
  by (simp add: bob_def)

text \<open>
  Delete removes exactly the record named: the collection keeps every other
  transaction, in order.
\<close>

lemma auth_delete_removes_exactly:
  assumes "wf d" "findById d (req_user_id req) = Some doc"
    and "transactions doc = xs @ t # ys" "params_tid req = t_id t"
  shows "auth_delete E d req =
           (save d (doc\<lparr>transactions := xs @ ys\<rparr>), json 200 (Message ''Transaction deleted''))"
proof -
  have m: "doc \<in> set (users d)" using assms(2) by (simp add: findById_mem)
  have "distinct (map t_id (transactions doc))" using assms(1) m by (rule wf_tids_distinct)
  then have nx: "\<forall>x \<in> set xs. t_id x \<noteq> t_id t" and ny: "\<forall>y \<in> set ys. t_id y \<noteq> t_id t"
    by (auto simp: assms(3) image_iff)
  have "find (\<lambda>x. t_id x = t_id t) (xs @ t # ys) = Some t"
    using nx by (induction xs) auto
  then have f: "transactions_id doc (params_tid req) = Some t"
    by (simp add: transactions_id_def assms(3,4))
  have "filter (\<lambda>x. t_id x \<noteq> t_id t) (xs @ t # ys) = xs @ ys"
    using nx ny by (simp add: filter_id_conv)
  then have "deleteOne doc t = doc\<lparr>transactions := xs @ ys\<rparr>"
    by (simp add: deleteOne_def assms(3))
  then show ?thesis using assms(2) f by (simp add: auth_delete_def)
qed

lemma findById_users_eq:
  "users d' = users d \<Longrightarrow> findById d' i = findById d i"
  by (simp add: findById_def)

lemma save_noop:
  "wf d \<Longrightarrow> u \<in> set (users d) \<Longrightarrow> users (save d u) = users d"
proof -
  assume w: "wf d" and m: "u \<in> set (users d)"
  from m obtain ys zs where split: "users d = ys @ u # zs" by (auto dest: split_list)
  from w have dist: "distinct (map u_id (users d))" by (simp add: wf_def)
  show ?thesis using users_save [OF dist split refl] split by simp
qed

lemma users_save_twice:
  "u_id doc' = u_id doc \<Longrightarrow> users (save (save d doc) doc') = users (save d doc')"
  by (simp add: save_def comp_def if_distrib [of u_id] cong: if_cong)

lemma find_append_new:
  "\<forall>x \<in> set xs. \<not> P x \<Longrightarrow> P y \<Longrightarrow> find P (xs @ [y]) = Some y"
  by (induction xs) auto

text \<open>
  C9.  The round trip of create, list and delete.  Let the store satisfy the
  invariant, let the authenticated user exist with document \<open>doc\<close>, and let the
  schema store the five supplied fields as they are given.  Then create answers 201
  and a following list returns \<open>doc\<close>'s collection with one record appended, whose
  five fields are the supplied ones and whose id is fresh; every other user is
  looked up as before.  Deleting the record by that id answers 200, a following
  list returns \<open>doc\<close>'s collection as it was before the create, and the whole users
  collection is as it was.
\<close>

theorem create_list_delete_roundtrip:
  assumes "wf d" "findById d (req_user_id req) = Some doc"
    and "tx_schema E (destructure (req_body req)) = Inr (destructure (req_body req))"
    and "d1 = fst (auth_create E d req)"
    and "d2 = fst (auth_delete E d1 (req\<lparr>params_tid := next_oid d\<rparr>))"
  shows "snd (auth_create E d req) = json 201 (Message ''Transaction added'') \<and>
         auth_transactions E d1 req =
           (d1, json 200 (Transactions
              (transactions doc @ [\<lparr>t_id = next_oid d, t_fields = destructure (req_body req)\<rparr>]))) \<and>
         (\<forall>j. j \<noteq> req_user_id req \<longrightarrow> findById d1 j = findById d j) \<and>
         snd (auth_delete E d1 (req\<lparr>params_tid := next_oid d\<rparr>)) =
           json 200 (Message ''Transaction deleted'') \<and>
         auth_transactions E d2 req = (d2, json 200 (Transactions (transactions doc))) \<and>
         users d2 = users d"
proof -
  let ?f = "destructure (req_body req)"
  let ?t = "\<lparr>t_id = next_oid d, t_fields = ?f\<rparr>"
  let ?doc1 = "doc\<lparr>transactions := transactions doc @ [?t]\<rparr>"
  have m: "doc \<in> set (users d)" and i: "u_id doc = req_user_id req"
    using assms(2) by (simp_all add: findById_mem)
  have c: "auth_create E d req =
      ((save d ?doc1)\<lparr>next_oid := Suc (next_oid d)\<rparr>, json 201 (Message ''Transaction added''))"
    using assms(2,3) by (simp add: auth_create_def Let_def)
  then have d1: "d1 = (save d ?doc1)\<lparr>next_oid := Suc (next_oid d)\<rparr>"
    using assms(4) by simp
  have f1: "findById d1 (req_user_id req) = Some ?doc1"
    using findById_save_same [OF assms(2), of ?doc1] i
    by (simp add: d1 findById_def)
  have 2: "auth_transactions E d1 req = (d1, json 200 (Transactions (transactions doc @ [?t])))"
    by (simp add: auth_transactions_def f1)
  have 3: "\<forall>j. j \<noteq> req_user_id req \<longrightarrow> findById d1 j = findById d j"
    using findById_save_other [of _ ?doc1 d] i by (simp add: d1 findById_def)
  have fresh: "\<forall>x \<in> set (transactions doc). t_id x \<noteq> next_oid d"
  proof
    fix x assume "x \<in> set (transactions doc)"
    then have "t_id x \<in> set (all_tids d)" using m by (auto simp: all_tids_def)
    then show "t_id x \<noteq> next_oid d" using assms(1) by (auto simp: wf_def)
  qed
  have ti: "transactions_id ?doc1 (next_oid d) = Some ?t"
    using fresh by (auto simp: transactions_id_def intro!: find_append_new)
  have del: "deleteOne ?doc1 ?t = doc"
    using fresh by (auto simp: deleteOne_def filter_id_conv)
  have e: "auth_delete E d1 (req\<lparr>params_tid := next_oid d\<rparr>) =
      (save d1 doc, json 200 (Message ''Transaction deleted''))"
    by (simp add: auth_delete_def f1 ti del)
  then have d2: "d2 = save d1 doc" using assms(5) by simp
  have "users d2 = users (save (save d ?doc1) doc)"
    by (simp add: d2 d1 save_def)
  also have "\<dots> = users (save d doc)"
    by (rule users_save_twice) simp
  also have "\<dots> = users d"
    by (rule save_noop [OF assms(1) m])
  finally have u2: "users d2 = users d" .
  have f2: "findById d2 (req_user_id req) = Some doc"
    using assms(2) findById_users_eq [OF u2] by simp
  have 5: "auth_transactions E d2 req = (d2, json 200 (Transactions (transactions doc)))"
    by (simp add: auth_transactions_def f2)
  from c 2 3 e 5 u2 show ?thesis by simp
qed

lemma destructure_body_of [simp]: "destructure (body_of f) = f"
  by (simp add: destructure_def body_of_def)

lemma findById_alice: "findById db2 0 = Some alice"
  by (simp add: findById_def db2_def alice_def)

theorem create_list_delete_roundtrip_witness:
  "snd (auth_create env0 db2 \<lparr>req_user_id = 0, params_tid = 0, req_body = body_of lunch\<rparr>) =
     json 201 (Message ''Transaction added'') \<and>
   snd (auth_transactions env0
      (fst (auth_create env0 db2 \<lparr>req_user_id = 0, params_tid = 0, req_body = body_of lunch\<rparr>))
      \<lparr>req_user_id = 0, params_tid = 0, req_body = body_of lunch\<rparr>) =
     json 200 (Transactions [\<lparr>t_id = 2, t_fields = lunch\<rparr>, \<lparr>t_id = 4, t_fields = lunch\<rparr>]) \<and>
   users (fst (auth_delete env0
      (fst (auth_create env0 db2 \<lparr>req_user_id = 0, params_tid = 0, req_body = body_of lunch\<rparr>))
      \<lparr>req_user_id = 0, params_tid = 4, req_body = body_of lunch\<rparr>)) = users db2"
proof -
  let ?r = "\<lparr>req_user_id = 0, params_tid = 0, req_body = body_of lunch\<rparr>"
  have f: "findById db2 (req_user_id ?r) = Some alice" by (simp add: findById_alice)
  have s: "tx_schema env0 (destructure (req_body ?r)) = Inr (destructure (req_body ?r))"
    by (simp add: env0_def)
  have n: "next_oid db2 = 4" by (simp add: db2_def)
  have t: "transactions alice = [\<lparr>t_id = 2, t_fields = lunch\<rparr>]" by (simp add: alice_def)
  show ?thesis
    using create_list_delete_roundtrip [OF wf_db2 f s refl refl] by (simp add: n t)
qed

section \<open>Update\<close>

lemma find_map_assign:
  "find (\<lambda>x. k x = i) xs = Some t \<Longrightarrow> (\<And>x. k (h x) = k x) \<Longrightarrow>
     find (\<lambda>x. k x = i) (map (\<lambda>x. if k x = i then h x else x) xs) = Some (h t)"
  by (induction xs) (auto split: if_splits)

lemma find_map_assign_other:
  "j \<noteq> i \<Longrightarrow> (\<And>x. k (h x) = k x) \<Longrightarrow>
     find (\<lambda>x. k x = j) (map (\<lambda>x. if k x = i then h x else x) xs) = find (\<lambda>x. k x = j) xs"
  by (induction xs) auto

lemma transactions_id_assign_same:
  assumes "transactions_id doc tid = Some t"
  shows "transactions_id (assign_fields doc t f) tid = Some (t\<lparr>t_fields := f\<rparr>)"
proof -
  have i: "t_id t = tid" using assms by (simp add: transactions_id_mem)
  show ?thesis
    using find_map_assign [of t_id tid "transactions doc" t "\<lambda>x. x\<lparr>t_fields := f\<rparr>"] assms
    by (simp add: transactions_id_def assign_fields_def i)
qed

lemma transactions_id_assign_other:
  "j \<noteq> t_id t \<Longrightarrow> transactions_id (assign_fields doc t f) j = transactions_id doc j"
  using find_map_assign_other [of j "t_id t" t_id "\<lambda>x. x\<lparr>t_fields := f\<rparr>" "transactions doc"]
  by (simp add: transactions_id_def assign_fields_def)

text \<open>What the update handlers assign: the four fields as supplied, the date if truthy.\<close>

lemma assigned_fields:
  "f\<lparr>date := js_or (date f) old\<rparr> =
     \<lparr>tx_type = tx_type f, category = category f, amount = amount f,
      description = description f, date = (if truthy (date f) then date f else old)\<rparr>"
  by (simp add: js_or_def)

lemma auth_update_found:
  assumes "findById d (req_user_id req) = Some doc"
    and "transactions_id doc (params_tid req) = Some t"
    and "g = (destructure (req_body req))\<lparr>date := js_or (req_body req ''date'') (date (t_fields t))\<rparr>"
    and "tx_schema E g = Inr g"
  shows "auth_update E d req =
           (save d (assign_fields doc t g), json 200 (Message ''Transaction updated''))"
  using assms by (simp add: auth_update_def destructure_def)

lemma auth_update_p0_found:
  assumes "findById d (req_user_id req) = Some doc"
    and "transactions_id doc (params_tid req) = Some t"
    and "g = (destructure (req_body req))\<lparr>date := js_or (req_body req ''date'') (date (t_fields t))\<rparr>"
    and "tx_schema E g = Inr g"
    and "truthy (req_body req ''type'')" "truthy (req_body req ''category'')"
        "\<not> eq_null (req_body req ''amount'')"
  shows "auth_update_p0 E d req =
           (save d (assign_fields doc t g), json 200 (Message ''Transaction updated''))"
  using assms by (simp add: auth_update_p0_def destructure_def)

text \<open>The sibling handler of src/unnamed/part_000 checks the required fields first.\<close>

lemma auth_update_p0_missing:
  "\<not> (truthy (req_body req ''type'') \<and> truthy (req_body req ''category'') \<and>
      \<not> eq_null (req_body req ''amount'')) \<Longrightarrow>
   auth_update_p0 E d req = (d, json 400 (Message ''Missing required fields''))"
  by (auto simp: auth_update_p0_def destructure_def)

text \<open>
  C7.  Update semantics.  In src/backend/server.js, update answers 404, the store
  unchanged, when no user has the authenticated id or when the user's collection
  has no transaction with the id of the path.  When both exist and the schema
  stores the assigned document as given, it answers 200 and saves the user with
  that transaction's fields replaced: type, category, amount and description by
  the supplied values, whatever they are, and the date by the supplied one if that
  is truthy, the stored date being kept otherwise; the transaction keeps its id,
  and every other transaction and every other user is looked up as before.  In
  src/unnamed/part_000 the same holds for a request whose type and category are
  truthy and whose amount is neither null nor undefined; any other request is
  answered 400 before anything is looked up, the store unchanged.
\<close>

theorem update_semantics:
  "(findById d (req_user_id req) = None \<longrightarrow> auth_update E d req = (d, sendStatus 404)) \<and>
   (findById d (req_user_id req) = Some doc \<and> transactions_id doc (params_tid req) = None \<longrightarrow>
      auth_update E d req = (d, sendStatus 404)) \<and>
   (findById d (req_user_id req) = Some doc \<and> transactions_id doc (params_tid req) = Some t \<and>
    g = \<lparr>tx_type = req_body req ''type'', category = req_body req ''category'',
         amount = req_body req ''amount'', description = req_body req ''description'',
         date = (if truthy (req_body req ''date'') then req_body req ''date''
                 else date (t_fields t))\<rparr> \<and>
    tx_schema E g = Inr g \<longrightarrow>
      auth_update E d req =
        (save d (assign_fields doc t g), json 200 (Message ''Transaction updated'')) \<and>
      findById (save d (assign_fields doc t g)) (req_user_id req) = Some (assign_fields doc t g) \<and>
      transactions_id (assign_fields doc t g) (params_tid req) = Some (t\<lparr>t_fields := g\<rparr>) \<and>
      (\<forall>j. j \<noteq> params_tid req \<longrightarrow>
         transactions_id (assign_fields doc t g) j = transactions_id doc j) \<and>
      (\<forall>j. j \<noteq> req_user_id req \<longrightarrow>
         findById (save d (assign_fields doc t g)) j = findById d j) \<and>
      (truthy (req_body req ''type'') \<and> truthy (req_body req ''category'') \<and>
       \<not> eq_null (req_body req ''amount'') \<longrightarrow>
         auth_update_p0 E d req = auth_update E d req)) \<and>
   (truthy (req_body req ''type'') \<and> truthy (req_body req ''category'') \<and>
    \<not> eq_null (req_body req ''amount'') \<and>
    (findById d (req_user_id req) = None \<or>
     findById d (req_user_id req) = Some doc \<and> transactions_id doc (params_tid req) = None) \<longrightarrow>
      auth_update_p0 E d req = (d, sendStatus 404)) \<and>
   (\<not> (truthy (req_body req ''type'') \<and> truthy (req_body req ''category'') \<and>
       \<not> eq_null (req_body req ''amount'')) \<longrightarrow>
      auth_update_p0 E d req = (d, json 400 (Message ''Missing required fields'')))"
proof (intro conjI impI allI)
  assume "findById d (req_user_id req) = None"
  then show "auth_update E d req = (d, sendStatus 404)" by (simp add: auth_update_def)
next
  assume "findById d (req_user_id req) = Some doc \<and> transactions_id doc (params_tid req) = None"
  then show "auth_update E d req = (d, sendStatus 404)" by (simp add: auth_update_def)
next
  assume "truthy (req_body req ''type'') \<and> truthy (req_body req ''category'') \<and>
    \<not> eq_null (req_body req ''amount'') \<and>
    (findById d (req_user_id req) = None \<or>
     findById d (req_user_id req) = Some doc \<and> transactions_id doc (params_tid req) = None)"
  then show "auth_update_p0 E d req = (d, sendStatus 404)"
    by (auto simp: auth_update_p0_def destructure_def)
next
  assume "\<not> (truthy (req_body req ''type'') \<and> truthy (req_body req ''category'') \<and>
       \<not> eq_null (req_body req ''amount''))"
  then show "auth_update_p0 E d req = (d, json 400 (Message ''Missing required fields''))"
    by (rule auth_update_p0_missing)
next
  assume h: "findById d (req_user_id req) = Some doc \<and> transactions_id doc (params_tid req) = Some t \<and>
    g = \<lparr>tx_type = req_body req ''type'', category = req_body req ''category'',
         amount = req_body req ''amount'', description = req_body req ''description'',
         date = (if truthy (req_body req ''date'') then req_body req ''date''
                 else date (t_fields t))\<rparr> \<and>
    tx_schema E g = Inr g"
  then have fd: "findById d (req_user_id req) = Some doc"
    and ft: "transactions_id doc (params_tid req) = Some t"
    and sc: "tx_schema E g = Inr g" by blast+
  have g: "g = (destructure (req_body req))\<lparr>date := js_or (req_body req ''date'') (date (t_fields t))\<rparr>"
    using h by (simp add: destructure_def js_or_def)
  show u: "auth_update E d req =
        (save d (assign_fields doc t g), json 200 (Message ''Transaction updated''))"
    using fd ft g sc by (rule auth_update_found)
  show "findById (save d (assign_fields doc t g)) (req_user_id req) = Some (assign_fields doc t g)"
    using fd by (rule findById_save_same) (use fd in \<open>simp add: findById_mem\<close>)
  show "transactions_id (assign_fields doc t g) (params_tid req) = Some (t\<lparr>t_fields := g\<rparr>)"
    using ft by (rule transactions_id_assign_same)
  have ti: "t_id t = params_tid req" using ft by (simp add: transactions_id_mem)
  have ui: "u_id doc = req_user_id req" using fd by (simp add: findById_mem)
  show "transactions_id (assign_fields doc t g) j = transactions_id doc j"
    if "j \<noteq> params_tid req" for j
    using that ti by (simp add: transactions_id_assign_other)
  show "findById (save d (assign_fields doc t g)) j = findById d j"
    if "j \<noteq> req_user_id req" for j
    using that ui by (simp add: findById_save_other)
  show "auth_update_p0 E d req = auth_update E d req"
    if "truthy (req_body req ''type'') \<and> truthy (req_body req ''category'') \<and>
       \<not> eq_null (req_body req ''amount'')"
    using auth_update_p0_found [OF fd ft g sc] that u by simp
qed

theorem update_semantics_witness:
  "auth_update env0 db2 \<lparr>req_user_id = 7, params_tid = 2, req_body = gift_body\<rparr> =
     (db2, sendStatus 404) \<and>
   auth_update env0 db2 \<lparr>req_user_id = 0, params_tid = 99, req_body = gift_body\<rparr> =
     (db2, sendStatus 404) \<and>
   auth_update_p0 env0 db2 \<lparr>req_user_id = 0, params_tid = 99, req_body = gift_body\<rparr> =
     (db2, sendStatus 404) \<and>
   auth_update_p0 env0 db2 \<lparr>req_user_id = 0, params_tid = 2, req_body = no_type_body\<rparr> =
     (db2, json 400 (Message ''Missing required fields'')) \<and>
   snd (auth_update env0 db2 \<lparr>req_user_id = 0, params_tid = 2, req_body = gift_body\<rparr>) =
     json 200 (Message ''Transaction updated'') \<and>
   users (fst (auth_update env0 db2 \<lparr>req_user_id = 0, params_tid = 2, req_body = gift_body\<rparr>)) =
     [alice\<lparr>transactions :=
        [\<lparr>t_id = 2,
          t_fields = \<lparr>tx_type = JStr ''income'', category = JStr ''Gift'', amount = JNum 0,
                      description = JStr [], date = JStr ''2024-03-01''\<rparr>\<rparr>]\<rparr>, bob] \<and>
   auth_update_p0 env0 db2 \<lparr>req_user_id = 0, params_tid = 2, req_body = gift_body\<rparr> =
     auth_update env0 db2 \<lparr>req_user_id = 0, params_tid = 2, req_body = gift_body\<rparr>"
proof -
  let ?g = "\<lparr>tx_type = JStr ''income'', category = JStr ''Gift'', amount = JNum 0,
            description = JStr [], date = JStr ''2024-03-01''\<rparr>"
  let ?t = "\<lparr>t_id = 2, t_fields = lunch\<rparr>"
  have f7: "findById db2 7 = None" by (simp add: findById_def db2_def alice_def bob_def)
  have t99: "transactions_id alice 99 = None" by (simp add: transactions_id_def alice_def)
  have t2: "transactions_id alice 2 = Some ?t" by (simp add: transactions_id_def alice_def)
  have sc: "tx_schema env0 ?g = Inr ?g" by (simp add: env0_def)
  have sv: "users (save db2 (assign_fields alice ?t ?g)) =
      [alice\<lparr>transactions := [\<lparr>t_id = 2, t_fields = ?g\<rparr>]\<rparr>, bob]"
    by (simp add: save_def assign_fields_def db2_def alice_def bob_def)
  have 1: "auth_update env0 db2 \<lparr>req_user_id = 7, params_tid = 2, req_body = gift_body\<rparr> =
     (db2, sendStatus 404)"
    using update_semantics [of db2 "\<lparr>req_user_id = 7, params_tid = 2, req_body = gift_body\<rparr>" env0]
      f7 by simp
  have 2: "auth_update env0 db2 \<lparr>req_user_id = 0, params_tid = 99, req_body = gift_body\<rparr> =
     (db2, sendStatus 404) \<and>
     auth_update_p0 env0 db2 \<lparr>req_user_id = 0, params_tid = 99, req_body = gift_body\<rparr> =
     (db2, sendStatus 404)"
    using update_semantics [of db2 "\<lparr>req_user_id = 0, params_tid = 99, req_body = gift_body\<rparr>"
        env0 alice] findById_alice t99
    by (simp add: gift_body_def)
  have 3: "auth_update_p0 env0 db2 \<lparr>req_user_id = 0, params_tid = 2, req_body = no_type_body\<rparr> =
     (db2, json 400 (Message ''Missing required fields''))"
    using update_semantics [of db2 "\<lparr>req_user_id = 0, params_tid = 2, req_body = no_type_body\<rparr>"
        env0]
    by (simp add: no_type_body_def)
  have 4: "auth_update env0 db2 \<lparr>req_user_id = 0, params_tid = 2, req_body = gift_body\<rparr> =
      (save db2 (assign_fields alice ?t ?g), json 200 (Message ''Transaction updated'')) \<and>
     auth_update_p0 env0 db2 \<lparr>req_user_id = 0, params_tid = 2, req_body = gift_body\<rparr> =
     auth_update env0 db2 \<lparr>req_user_id = 0, params_tid = 2, req_body = gift_body\<rparr>"
    using update_semantics [of db2 "\<lparr>req_user_id = 0, params_tid = 2, req_body = gift_body\<rparr>"
        env0 alice ?t ?g] findById_alice t2 sc
    by (simp add: gift_body_def lunch_def)
  from 1 2 3 4 sv show ?thesis by simp
qed

text \<open>
  In src/unnamed/part_000 the check of the required fields comes first: an update
  that names a transaction the user does not have, and lacks the type, is answered
  400 and not 404.
\<close>

theorem update_not_found_counterexample:
  "findById db2 0 = Some alice \<and> transactions_id alice 99 = None \<and>
   auth_update_p0 env0 db2 \<lparr>req_user_id = 0, params_tid = 99, req_body = no_type_body\<rparr> =
     (db2, json 400 (Message ''Missing required fields''))"
  by (simp add: findById_alice transactions_id_def alice_def auth_update_p0_def destructure_def
      no_type_body_def)

text \<open>
  C6.  Update validates the required fields.  src/unnamed/part_000 does
  (\<open>auth_update_p0_missing\<close>); src/backend/server.js has no such check.  Its update
  handler never answers 400, whatever the environment, the store and the request;
  and on the example store, with a schema that accepts what it is given, a request
  without a type is answered 200 and the transaction is saved with its type
  undefined.
\<close>

theorem update_missing_fields_backend:
  "status (snd (auth_update E d req)) \<noteq> 400 \<and>
   auth_update env0 db2 \<lparr>req_user_id = 0, params_tid = 2, req_body = no_type_body\<rparr> =
     (\<lparr>users =
         [alice\<lparr>transactions :=
            [\<lparr>t_id = 2,
              t_fields = \<lparr>tx_type = JUndefined, category = JStr ''Food'', amount = JNum 5,
                          description = JUndefined, date = JStr ''2024-03-01''\<rparr>\<rparr>]\<rparr>, bob],
       next_oid = 4\<rparr>,
      json 200 (Message ''Transaction updated''))"
proof
  show "status (snd (auth_update E d req)) \<noteq> 400"
    by (simp add: auth_update_def sendStatus_def json_def Let_def split: option.splits sum.splits)
  show "auth_update env0 db2 \<lparr>req_user_id = 0, params_tid = 2, req_body = no_type_body\<rparr> =
     (\<lparr>users =
         [alice\<lparr>transactions :=
            [\<lparr>t_id = 2,
              t_fields = \<lparr>tx_type = JUndefined, category = JStr ''Food'', amount = JNum 5,
                          description = JUndefined, date = JStr ''2024-03-01''\<rparr>\<rparr>]\<rparr>, bob],
       next_oid = 4\<rparr>,
      json 200 (Message ''Transaction updated''))"
    by (simp add: auth_update_def findById_def transactions_id_def db2_def alice_def bob_def
        destructure_def no_type_body_def js_or_def lunch_def env0_def save_def assign_fields_def)
qed

section \<open>Tokens\<close>

lemma unbin_bin: "unbin (bin n) = n"
  apply (induction n rule: bin.induct)
  apply (subst bin.simps)
  apply (auto simp: unbin_def)
  done

lemma bin_digits: "c \<in> set (bin n) \<Longrightarrow> c \<noteq> CHR ''.''"
  apply (induction n arbitrary: c rule: bin.induct)
  apply (subst (asm) (2) bin.simps)
  apply (auto split: if_splits)
  done

lemma takeWhile_bin: "takeWhile (\<lambda>c. c \<noteq> CHR ''.'') (bin n @ CHR ''.'' # xs) = bin n"
  by (simp add: takeWhile_append2 bin_digits)

lemma verify0_sign0:
  "verify0 (sign0 i secret ttl t) secret clock =
     (if t + seconds ttl \<le> clock then Inl TokenExpiredError else Inr i)"
  by (simp add: verify0_def sign0_def Let_def takeWhile_bin unbin_bin)

lemma jwt_faithful_env0: "jwt_faithful env0"
  by (simp add: jwt_faithful_def env0_def verify0_sign0) (simp add: sign0_def)

text \<open>
  A cookie that decodes to no identity but \<open>i\<close>, presented when no user with
  id \<open>i\<close> holds it: whoever else is found by its value has another id.
\<close>

lemma refresh_stale:
  assumes "c \<noteq> []"
    and "\<forall>j. jwt_verify E c (REFRESH_TOKEN_SECRET E) clock = Inr j \<longrightarrow> j = i"
    and "\<forall>u \<in> set (users d). u_id u = i \<longrightarrow> refreshToken u \<noteq> Some c"
  shows "refresh E d \<lparr>cookies_jwt = Some c, cookie_clock = clock\<rparr> = (d, sendStatus 403)"
proof (cases "findOne_refreshToken d c")
  case None
  with assms(1) show ?thesis by (simp add: refresh_def)
next
  case (Some v)
  then have "v \<in> set (users d)" "refreshToken v = Some c"
    by (simp_all add: findOne_refreshToken_mem)
  with assms(3) have "u_id v \<noteq> i" by blast
  with assms(1,2) Some show ?thesis
    by (auto simp: refresh_def split: sum.splits)
qed

lemma users_save_token:
  "\<forall>x \<in> set (users (save d (u\<lparr>refreshToken := tok\<rparr>))). u_id x = u_id u \<longrightarrow> refreshToken x = tok"
  by (auto simp: save_def)

lemma login_ok:
  assumes "status (snd (login E d req)) = 200" "body_user req = Some name"
    and "findOne_username d name = Some u"
  shows "login E d req = issue E d u (auth_clock req) ''15m'' cookie_set_opts 200"
  using assms by (auto simp: login_def sendStatus_def json_def split: if_splits)

lemma register_ok:
  assumes "status (snd (register E d req)) = 201"
  shows "\<exists>name pwd. body_user req = Some name \<and> body_pwd req = Some pwd \<and>
     register E d req =
       issue E (fst (User_create d name (bcrypt_hash E pwd)))
         (snd (User_create d name (bcrypt_hash E pwd))) (auth_clock req) ''15m'' cookie_set_opts 201"
  using assms
  by (cases "body_user req"; cases "body_pwd req")
    (auto simp: register_def sendStatus_def json_def Let_def case_prod_beta
      split: if_splits option.splits)

lemma fst_issue:
  "fst (issue E d u clock ttl opts code) =
     save d (u\<lparr>refreshToken := Some (jwt_sign E (u_id u) (REFRESH_TOKEN_SECRET E) ''1d'' clock)\<rparr>)"
  by (simp add: issue_def Let_def)

text \<open>
  C4.  Only the latest refresh token is honoured, in src/backend/server.js.  Let the
  token library be faithful and let \<open>c\<close> be a refresh token signed for the user
  with id \<open>i\<close> at some earlier time \<open>t0\<close>.  After a successful login of that user
  (or a successful register creating it) that stored a refresh token other than
  \<open>c\<close>, and after a logout that found that user and cleared its token, a refresh
  presenting \<open>c\<close> is answered 403, at whatever time it comes, and changes nothing.
  The same holds in every later state in which no document with id \<open>i\<close> holds \<open>c\<close>.
\<close>

theorem stale_refresh_token_rejected:
  assumes "jwt_faithful E"
    and "c = jwt_sign E i (REFRESH_TOKEN_SECRET E) ''1d'' t0"
  shows
    "(status (snd (login E d req)) = 200 \<and> body_user req = Some name \<and>
      findOne_username d name = Some u \<and> u_id u = i \<and>
      jwt_sign E i (REFRESH_TOKEN_SECRET E) ''1d'' (auth_clock req) \<noteq> c \<longrightarrow>
        refresh E (fst (login E d req)) \<lparr>cookies_jwt = Some c, cookie_clock = clock\<rparr> =
          (fst (login E d req), sendStatus 403)) \<and>
     (status (snd (register E d req)) = 201 \<and> next_oid d = i \<and>
      jwt_sign E i (REFRESH_TOKEN_SECRET E) ''1d'' (auth_clock req) \<noteq> c \<longrightarrow>
        refresh E (fst (register E d req)) \<lparr>cookies_jwt = Some c, cookie_clock = clock\<rparr> =
          (fst (register E d req), sendStatus 403)) \<and>
     (cookies_jwt lreq = Some c0 \<and> c0 \<noteq> [] \<and> findOne_refreshToken d c0 = Some u \<and> u_id u = i \<longrightarrow>
        refresh E (fst (logout E d lreq)) \<lparr>cookies_jwt = Some c, cookie_clock = clock\<rparr> =
          (fst (logout E d lreq), sendStatus 403)) \<and>
     ((\<forall>x \<in> set (users d). u_id x = i \<longrightarrow> refreshToken x \<noteq> Some c) \<longrightarrow>
        refresh E d \<lparr>cookies_jwt = Some c, cookie_clock = clock\<rparr> = (d, sendStatus 403))"
proof -
  have ne: "c \<noteq> []" and dec: "\<forall>j. jwt_verify E c (REFRESH_TOKEN_SECRET E) clock = Inr j \<longrightarrow> j = i"
    using assms by (simp_all add: jwt_faithful_def)
  have stale: "refresh E (save d' (v\<lparr>refreshToken := tok\<rparr>))
        \<lparr>cookies_jwt = Some c, cookie_clock = clock\<rparr> =
      (save d' (v\<lparr>refreshToken := tok\<rparr>), sendStatus 403)"
    if "u_id v = i" "tok \<noteq> Some c" for d' v tok
    using ne dec
  proof (rule refresh_stale)
    show "\<forall>x \<in> set (users (save d' (v\<lparr>refreshToken := tok\<rparr>))). u_id x = i \<longrightarrow> refreshToken x \<noteq> Some c"
      using users_save_token [where d = d' and u = v and tok = tok] that by auto
  qed
  have 1: "refresh E (fst (login E d req)) \<lparr>cookies_jwt = Some c, cookie_clock = clock\<rparr> =
          (fst (login E d req), sendStatus 403)"
    if h: "status (snd (login E d req)) = 200 \<and> body_user req = Some name \<and>
      findOne_username d name = Some u \<and> u_id u = i \<and>
      jwt_sign E i (REFRESH_TOKEN_SECRET E) ''1d'' (auth_clock req) \<noteq> c"
  proof -
    from h have "login E d req = issue E d u (auth_clock req) ''15m'' cookie_set_opts 200"
      by (intro login_ok) blast+
    then have "fst (login E d req) =
        save d (u\<lparr>refreshToken := Some (jwt_sign E i (REFRESH_TOKEN_SECRET E) ''1d'' (auth_clock req))\<rparr>)"
      using h by (simp add: fst_issue)
    then show ?thesis using h stale by simp
  qed
  have 2: "refresh E (fst (register E d req)) \<lparr>cookies_jwt = Some c, cookie_clock = clock\<rparr> =
          (fst (register E d req), sendStatus 403)"
    if h: "status (snd (register E d req)) = 201 \<and> next_oid d = i \<and>
      jwt_sign E i (REFRESH_TOKEN_SECRET E) ''1d'' (auth_clock req) \<noteq> c"
  proof -
    from h register_ok [of E d req] obtain nm pwd where
      r: "register E d req =
       issue E (fst (User_create d nm (bcrypt_hash E pwd)))
         (snd (User_create d nm (bcrypt_hash E pwd))) (auth_clock req) ''15m'' cookie_set_opts 201"
      by blast
    have "u_id (snd (User_create d nm (bcrypt_hash E pwd))) = i"
      using h by (simp add: User_create_def Let_def)
    then show ?thesis using h stale by (simp add: r fst_issue)
  qed
  have 3: "refresh E (fst (logout E d lreq)) \<lparr>cookies_jwt = Some c, cookie_clock = clock\<rparr> =
          (fst (logout E d lreq), sendStatus 403)"
    if h: "cookies_jwt lreq = Some c0 \<and> c0 \<noteq> [] \<and> findOne_refreshToken d c0 = Some u \<and> u_id u = i"
  proof -
    from h have "fst (logout E d lreq) = save d (u\<lparr>refreshToken := None\<rparr>)"
      by (simp add: logout_def)
    then show ?thesis using h stale by simp
  qed
  have 4: "refresh E d \<lparr>cookies_jwt = Some c, cookie_clock = clock\<rparr> = (d, sendStatus 403)"
    if "\<forall>x \<in> set (users d). u_id x = i \<longrightarrow> refreshToken x \<noteq> Some c"
    using ne dec that by (rule refresh_stale)
  from 1 2 3 4 show ?thesis by blast
qed

theorem stale_refresh_token_rejected_witness:
  "refresh env0 db2 \<lparr>cookies_jwt = Some alice_token, cookie_clock = 150\<rparr> =
     (db2, json 200 (AccessToken (sign0 0 ''A'' ''15m'' 150))) \<and>
   snd (refresh env0
      (fst (login env0 db2 \<lparr>body_user = Some ''alice'', body_pwd = Some ''pw'', auth_clock = 100\<rparr>))
      \<lparr>cookies_jwt = Some alice_token, cookie_clock = 150\<rparr>) = sendStatus 403 \<and>
   snd (refresh env0
      (fst (logout env0 db2 \<lparr>cookies_jwt = Some alice_token, cookie_clock = 100\<rparr>))
      \<lparr>cookies_jwt = Some alice_token, cookie_clock = 150\<rparr>) = sendStatus 403 \<and>
   snd (refresh env0
      (fst (register env0 db2 \<lparr>body_user = Some ''carol'', body_pwd = Some ''pw'', auth_clock = 100\<rparr>))
      \<lparr>cookies_jwt = Some (sign0 4 ''R'' ''1d'' 10), cookie_clock = 150\<rparr>) = sendStatus 403 \<and>
   refresh env0 db2 \<lparr>cookies_jwt = Some (sign0 0 ''R'' ''1d'' 5), cookie_clock = 150\<rparr> =
     (db2, sendStatus 403)"
proof -
  let ?l = "\<lparr>body_user = Some ''alice'', body_pwd = Some ''pw'', auth_clock = 100\<rparr>"
  let ?r = "\<lparr>body_user = Some ''carol'', body_pwd = Some ''pw'', auth_clock = 100\<rparr>"
  let ?o = "\<lparr>cookies_jwt = Some alice_token, cookie_clock = 100\<rparr>"
  have c: "alice_token = jwt_sign env0 0 (REFRESH_TOKEN_SECRET env0) ''1d'' 10"
    by (simp add: alice_token_def env0_def)
  have c4: "sign0 4 ''R'' ''1d'' 10 = jwt_sign env0 4 (REFRESH_TOKEN_SECRET env0) ''1d'' 10"
    by (simp add: env0_def)
  have fa: "findOne_username db2 ''alice'' = Some alice"
    by (simp add: findOne_username_def db2_def alice_def)
  have fc: "findOne_username db2 ''carol'' = None"
    by (simp add: findOne_username_def db2_def alice_def bob_def)
  have ua: "u_id alice = 0" by (simp add: alice_def)
  have pa: "password alice = ''$pw''" by (simp add: alice_def)
  have sl: "status (snd (login env0 db2 ?l)) = 200"
    by (simp add: login_def fa pa issue_def Let_def) (simp add: env0_def)
  have sr: "status (snd (register env0 db2 ?r)) = 201"
    by (simp add: register_def fc issue_def Let_def case_prod_beta)
  have n: "next_oid db2 = 4" by (simp add: db2_def)
  have ne: "jwt_sign env0 0 (REFRESH_TOKEN_SECRET env0) ''1d'' (auth_clock ?l) \<noteq> alice_token"
    by (simp add: env0_def alice_token_eq sign0_def seconds_def bin.simps)
  have ne4: "jwt_sign env0 4 (REFRESH_TOKEN_SECRET env0) ''1d'' (auth_clock ?r) \<noteq>
      sign0 4 ''R'' ''1d'' 10"
    by (simp add: env0_def sign0_def seconds_def bin.simps)
  have 0: "refresh env0 db2 \<lparr>cookies_jwt = Some alice_token, cookie_clock = 150\<rparr> =
     (db2, json 200 (AccessToken (sign0 0 ''A'' ''15m'' 150)))"
  proof -
    have v: "jwt_verify env0 alice_token (REFRESH_TOKEN_SECRET env0) 150 = Inr 0"
      by (simp add: env0_def alice_token_def verify0_sign0 seconds_def)
    have a: "jwt_sign env0 0 (ACCESS_TOKEN_SECRET env0) ''15m'' 150 = sign0 0 ''A'' ''15m'' 150"
      by (simp add: env0_def)
    have "alice_token \<noteq> []" by (simp add: alice_token_eq)
    then show ?thesis using findOne_alice v a ua by (simp add: refresh_def)
  qed
  have 1: "snd (refresh env0 (fst (login env0 db2 ?l))
      \<lparr>cookies_jwt = Some alice_token, cookie_clock = 150\<rparr>) = sendStatus 403"
    using stale_refresh_token_rejected [OF jwt_faithful_env0 c, of db2 ?l "''alice''" alice 150]
      sl fa ua ne by simp
  have 2: "snd (refresh env0 (fst (logout env0 db2 ?o))
      \<lparr>cookies_jwt = Some alice_token, cookie_clock = 150\<rparr>) = sendStatus 403"
    using stale_refresh_token_rejected [OF jwt_faithful_env0 c, of db2 _ _ alice 150 ?o alice_token]
      findOne_alice ua by (simp add: alice_token_eq)
  have 3: "snd (refresh env0 (fst (register env0 db2 ?r))
      \<lparr>cookies_jwt = Some (sign0 4 ''R'' ''1d'' 10), cookie_clock = 150\<rparr>) = sendStatus 403"
    using stale_refresh_token_rejected [OF jwt_faithful_env0 c4, of db2 ?r _ _ 150]
      sr n ne4 by simp
  have c5: "sign0 0 ''R'' ''1d'' 5 = jwt_sign env0 0 (REFRESH_TOKEN_SECRET env0) ''1d'' 5"
    by (simp add: env0_def)
  have old: "\<forall>x \<in> set (users db2). u_id x = 0 \<longrightarrow> refreshToken x \<noteq> Some (sign0 0 ''R'' ''1d'' 5)"
    by (simp add: db2_def alice_def bob_def alice_token_eq sign0_def seconds_def bin.simps)
  have 4: "refresh env0 db2 \<lparr>cookies_jwt = Some (sign0 0 ''R'' ''1d'' 5), cookie_clock = 150\<rparr> =
     (db2, sendStatus 403)"
    using stale_refresh_token_rejected [OF jwt_faithful_env0 c5, of db2 _ _ _ 150] old by simp
  from 0 1 2 3 4 show ?thesis by blast
qed

section \<open>Register\<close>

lemma findOne_username_Some_iff:
  "(\<exists>u. findOne_username d name = Some u) \<longleftrightarrow> (\<exists>u \<in> set (users d). username u = name)"
  unfolding findOne_username_def
  by (cases "find (\<lambda>u. username u = name) (users d)") (auto simp: find_None dest: find_mem)

lemma save_new_user:
  assumes "wf d" "u_id v = next_oid d" "u_id v' = next_oid d"
  shows "users (save (d\<lparr>users := users d @ [v], next_oid := n\<rparr>) v') = users d @ [v']"
proof -
  have "\<forall>x \<in> set (users d). u_id x \<noteq> next_oid d" using assms(1) by (auto simp: wf_def)
  then have "map (\<lambda>u. if u_id u = next_oid d then v' else u) (users d) = users d"
    by (intro map_idI) simp
  then show ?thesis using assms(2,3) by (simp add: save_def)
qed

lemma issue_new_user:
  assumes "wf d"
  shows "issue E (fst (User_create d name hashed)) (snd (User_create d name hashed)) clock ttl opts code =
    (\<lparr>users = users d @
        [\<lparr>u_id = next_oid d, username = name, password = hashed,
          refreshToken = Some (jwt_sign E (next_oid d) (REFRESH_TOKEN_SECRET E) ''1d'' clock),
          transactions = []\<rparr>],
      next_oid = Suc (next_oid d)\<rparr>,
     \<lparr>status = code,
      body = AccessToken (jwt_sign E (next_oid d) (ACCESS_TOKEN_SECRET E) ttl clock),
      set_cookie = Some (''jwt'', jwt_sign E (next_oid d) (REFRESH_TOKEN_SECRET E) ''1d'' clock, opts),
      clear_cookie = None\<rparr>)"
proof -
  let ?v = "\<lparr>u_id = next_oid d, username = name, password = hashed,
             refreshToken = None, transactions = []\<rparr>"
  let ?v' = "?v\<lparr>refreshToken := Some (jwt_sign E (next_oid d) (REFRESH_TOKEN_SECRET E) ''1d'' clock)\<rparr>"
  have us: "users (save (d\<lparr>users := users d @ [?v], next_oid := Suc (next_oid d)\<rparr>) ?v') = users d @ [?v']"
    using assms by (rule save_new_user) simp_all
  have "save (d\<lparr>users := users d @ [?v], next_oid := Suc (next_oid d)\<rparr>) ?v' =
      \<lparr>users = users d @ [?v'], next_oid = Suc (next_oid d)\<rparr>"
    by (rule db.equality) (use us in simp_all)
  then show ?thesis by (simp add: issue_def User_create_def Let_def)
qed

text \<open>
  C8.  Register: conflict and creation, in both copies of the server.  When a user
  with the requested username exists and the request carries a non-empty password,
  register answers 409 and returns the store as it was, so the existing user's
  password hash, refresh token and transactions are untouched.  When the username
  or the password is missing or empty it answers 400 instead, the store likewise
  unchanged.  When both are present and no user has the username, in a store that
  satisfies the invariant, it appends one user with a fresh id, the hash of the
  password, an empty transaction collection and a newly signed refresh token stored
  on it, and answers 201 with an access token in the body and the refresh token in
  the cookie.
\<close>

theorem register_conflict_and_create:
  "(body_user req = Some name \<and> name \<noteq> [] \<and> truthy_str (body_pwd req) \<and>
    (\<exists>u \<in> set (users d). username u = name) \<longrightarrow>
      register E d req = (d, sendStatus 409) \<and> register_p0 E d req = (d, sendStatus 409)) \<and>
   (\<not> (truthy_str (body_user req) \<and> truthy_str (body_pwd req)) \<longrightarrow>
      fst (register E d req) = d \<and> status (snd (register E d req)) = 400 \<and>
      fst (register_p0 E d req) = d \<and> status (snd (register_p0 E d req)) = 400) \<and>
   (wf d \<and> body_user req = Some name \<and> name \<noteq> [] \<and> body_pwd req = Some pwd \<and> pwd \<noteq> [] \<and>
    (\<forall>u \<in> set (users d). username u \<noteq> name) \<longrightarrow>
      register E d req =
        (\<lparr>users = users d @
            [\<lparr>u_id = next_oid d, username = name, password = bcrypt_hash E pwd,
              refreshToken =
                Some (jwt_sign E (next_oid d) (REFRESH_TOKEN_SECRET E) ''1d'' (auth_clock req)),
              transactions = []\<rparr>],
          next_oid = Suc (next_oid d)\<rparr>,
         \<lparr>status = 201,
          body = AccessToken
            (jwt_sign E (next_oid d) (ACCESS_TOKEN_SECRET E) ''15m'' (auth_clock req)),
          set_cookie = Some (''jwt'',
            jwt_sign E (next_oid d) (REFRESH_TOKEN_SECRET E) ''1d'' (auth_clock req),
            cookie_set_opts),
          clear_cookie = None\<rparr>) \<and>
      register_p0 E d req =
        (\<lparr>users = users d @
            [\<lparr>u_id = next_oid d, username = name, password = bcrypt_hash E pwd,
              refreshToken =
                Some (jwt_sign E (next_oid d) (REFRESH_TOKEN_SECRET E) ''1d'' (auth_clock req)),
              transactions = []\<rparr>],
          next_oid = Suc (next_oid d)\<rparr>,
         \<lparr>status = 201,
          body = AccessToken
            (jwt_sign E (next_oid d) (ACCESS_TOKEN_SECRET E) ''30s'' (auth_clock req)),
          set_cookie = Some (''jwt'',
            jwt_sign E (next_oid d) (REFRESH_TOKEN_SECRET E) ''1d'' (auth_clock req),
            cookie_set_opts_p0),
          clear_cookie = None\<rparr>))"
proof (intro conjI impI)
  assume h: "body_user req = Some name \<and> name \<noteq> [] \<and> truthy_str (body_pwd req) \<and>
    (\<exists>u \<in> set (users d). username u = name)"
  then obtain dup where "findOne_username d name = Some dup"
    using findOne_username_Some_iff [of d name] by blast
  with h show "register E d req = (d, sendStatus 409)" "register_p0 E d req = (d, sendStatus 409)"
    by (simp_all add: register_def register_p0_def)
next
  assume "\<not> (truthy_str (body_user req) \<and> truthy_str (body_pwd req))"
  then show "fst (register E d req) = d" "status (snd (register E d req)) = 400"
    "fst (register_p0 E d req) = d" "status (snd (register_p0 E d req)) = 400"
    by (auto simp: register_def register_p0_def json_def)
next
  assume h: "wf d \<and> body_user req = Some name \<and> name \<noteq> [] \<and> body_pwd req = Some pwd \<and> pwd \<noteq> [] \<and>
    (\<forall>u \<in> set (users d). username u \<noteq> name)"
  then have n: "findOne_username d name = None"
    by (simp add: findOne_username_def find_None)
  from h have w: "wf d" by blast
  from h n show "register E d req =
        (\<lparr>users = users d @
            [\<lparr>u_id = next_oid d, username = name, password = bcrypt_hash E pwd,
              refreshToken =
                Some (jwt_sign E (next_oid d) (REFRESH_TOKEN_SECRET E) ''1d'' (auth_clock req)),
              transactions = []\<rparr>],
          next_oid = Suc (next_oid d)\<rparr>,
         \<lparr>status = 201,
          body = AccessToken
            (jwt_sign E (next_oid d) (ACCESS_TOKEN_SECRET E) ''15m'' (auth_clock req)),
          set_cookie = Some (''jwt'',
            jwt_sign E (next_oid d) (REFRESH_TOKEN_SECRET E) ''1d'' (auth_clock req),
            cookie_set_opts),
          clear_cookie = None\<rparr>)"
    by (simp add: register_def case_prod_beta Let_def issue_new_user [OF w])
  from h n show "register_p0 E d req =
        (\<lparr>users = users d @
            [\<lparr>u_id = next_oid d, username = name, password = bcrypt_hash E pwd,
              refreshToken =
                Some (jwt_sign E (next_oid d) (REFRESH_TOKEN_SECRET E) ''1d'' (auth_clock req)),
              transactions = []\<rparr>],
          next_oid = Suc (next_oid d)\<rparr>,
         \<lparr>status = 201,
          body = AccessToken
            (jwt_sign E (next_oid d) (ACCESS_TOKEN_SECRET E) ''30s'' (auth_clock req)),
          set_cookie = Some (''jwt'',
            jwt_sign E (next_oid d) (REFRESH_TOKEN_SECRET E) ''1d'' (auth_clock req),
            cookie_set_opts_p0),
          clear_cookie = None\<rparr>)"
    by (simp add: register_p0_def case_prod_beta Let_def issue_new_user [OF w])
qed

theorem register_conflict_and_create_witness:
  "register env0 db2 \<lparr>body_user = Some ''alice'', body_pwd = Some ''other'', auth_clock = 100\<rparr> =
     (db2, sendStatus 409) \<and>
   register_p0 env0 db2 \<lparr>body_user = Some ''alice'', body_pwd = Some ''other'', auth_clock = 100\<rparr> =
     (db2, sendStatus 409) \<and>
   status (snd (register env0 db2 \<lparr>body_user = Some ''carol'', body_pwd = Some [], auth_clock = 100\<rparr>)) =
     400 \<and>
   register env0 db2 \<lparr>body_user = Some ''carol'', body_pwd = Some ''pw'', auth_clock = 100\<rparr> =
     (\<lparr>users = [alice, bob,
         \<lparr>u_id = 4, username = ''carol'', password = ''$pw'',
           refreshToken = Some (sign0 4 ''R'' ''1d'' 100), transactions = []\<rparr>],
       next_oid = 5\<rparr>,
      \<lparr>status = 201, body = AccessToken (sign0 4 ''A'' ''15m'' 100),
        set_cookie = Some (''jwt'', sign0 4 ''R'' ''1d'' 100, cookie_set_opts),
        clear_cookie = None\<rparr>)"
proof -
  let ?a = "\<lparr>body_user = Some ''alice'', body_pwd = Some ''other'', auth_clock = 100\<rparr>"
  let ?e = "\<lparr>body_user = Some ''carol'', body_pwd = Some [], auth_clock = 100\<rparr>"
  let ?c = "\<lparr>body_user = Some ''carol'', body_pwd = Some ''pw'', auth_clock = 100\<rparr>"
  have ex: "\<exists>u \<in> set (users db2). username u = ''alice''"
    by (simp add: db2_def alice_def)
  have nc: "\<forall>u \<in> set (users db2). username u \<noteq> ''carol''"
    by (simp add: db2_def alice_def bob_def)
  have us: "users db2 = [alice, bob]" and n: "next_oid db2 = 4" by (simp_all add: db2_def)
  have 1: "register env0 db2 ?a = (db2, sendStatus 409) \<and>
      register_p0 env0 db2 ?a = (db2, sendStatus 409)"
    using register_conflict_and_create [of ?a "''alice''" db2 env0] ex by simp
  have 2: "status (snd (register env0 db2 ?e)) = 400"
    using register_conflict_and_create [of ?e _ db2 env0] by simp
  have 3: "register env0 db2 ?c =
     (\<lparr>users = [alice, bob,
         \<lparr>u_id = 4, username = ''carol'', password = ''$pw'',
           refreshToken = Some (sign0 4 ''R'' ''1d'' 100), transactions = []\<rparr>],
       next_oid = 5\<rparr>,
      \<lparr>status = 201, body = AccessToken (sign0 4 ''A'' ''15m'' 100),
        set_cookie = Some (''jwt'', sign0 4 ''R'' ''1d'' 100, cookie_set_opts),
        clear_cookie = None\<rparr>)"
    using register_conflict_and_create [of ?c "''carol''" db2 env0 "''pw''"] wf_db2 nc
    by (simp add: us n) (simp add: env0_def)
  from 1 2 3 show ?thesis by blast
qed

text \<open>
  With the username taken and the password missing, the answer is 400, not 409.
\<close>

theorem register_conflict_counterexample:
  "findOne_username db2 ''alice'' = Some alice \<and>
   register env0 db2 \<lparr>body_user = Some ''alice'', body_pwd = None, auth_clock = 100\<rparr> =
     (db2, json 400 (Message ''Username and password required'')) \<and>
   register_p0 env0 db2 \<lparr>body_user = Some ''alice'', body_pwd = None, auth_clock = 100\<rparr> =
     (db2, json 400 (Message ''Username and password are required.''))"
  by (simp add: findOne_username_def db2_def alice_def register_def register_p0_def)

end
